theory Spec2Isabelle
  imports Complex_Main "HOL-Library.Word"
begin

section \<open>JavaScript values used by the compliance checker\<close>

text \<open>
  A JavaScript string is a sequence of UTF-16 code units. The identifiers of the source
  (property names, parameter ids) are ASCII and are kept as HOL strings; the raw texts
  typed by the user are code-unit lists, and \<open>js\<close> embeds an ASCII literal.
\<close>

type_synonym code_unit = "16 word"
type_synonym jsstring = "code_unit list"

definition js :: "string \<Rightarrow> jsstring" where
  "js s = map of_char s"

text \<open>
  A Number is NaN, an infinity or a finite IEEE 754 double. A finite double is
  represented by the real number it denotes; \<open>-0\<close> and \<open>0\<close>, which no comparison of
  this program tells apart, are both \<open>Fin 0\<close>.
\<close>

datatype number = NaN | NegInf | Fin real | PosInf

text \<open>
  The values that occur in the limit table and in the results: \<open>undefined\<close>,
  \<open>null\<close>, numbers, and plain objects written as literals (their own properties in
  the order of the literal; no key is repeated in the source).
\<close>

datatype jsval = Undefined | Null | Num number | Obj "(string \<times> jsval) list"

datatype error = TypeError

text \<open>\<open>o[k]\<close> and \<open>o.k\<close>: reading a property of \<open>undefined\<close> or \<open>null\<close> throws; a
  number has none of the properties read by this program; an object yields its own
  property or \<open>undefined\<close>.\<close>

fun getProp :: "jsval \<Rightarrow> string \<Rightarrow> error + jsval" where
  "getProp Undefined k = Inl TypeError"
| "getProp Null k = Inl TypeError"
| "getProp (Num n) k = Inr Undefined"
| "getProp (Obj kvs) k = (case map_of kvs k of None \<Rightarrow> Inr Undefined | Some v \<Rightarrow> Inr v)"

text \<open>\<open>!v\<close> is true for the falsy values.\<close>

fun falsy :: "jsval \<Rightarrow> bool" where
  "falsy Undefined = True"
| "falsy Null = True"
| "falsy (Num n) = (n = NaN \<or> n = Fin 0)"
| "falsy (Obj kvs) = False"

text \<open>\<open>ToNumber\<close>: a plain object converts through the string \<open>[object Object]\<close> to NaN.\<close>

fun ToNumber :: "jsval \<Rightarrow> number" where
  "ToNumber Undefined = NaN"
| "ToNumber Null = Fin 0"
| "ToNumber (Num n) = n"
| "ToNumber (Obj kvs) = NaN"

text \<open>\<open>a <= b\<close> on numbers: false as soon as one side is NaN.\<close>

fun num_le :: "number \<Rightarrow> number \<Rightarrow> bool" where
  "num_le NaN b = False"
| "num_le a NaN = False"
| "num_le NegInf b = True"
| "num_le a PosInf = True"
| "num_le (Fin x) (Fin y) = (x \<le> y)"
| "num_le (Fin x) NegInf = False"
| "num_le PosInf b = False"

text \<open>\<open>value <= limit\<close> and \<open>value >= limit\<close> with a number on the left: the right
  operand is converted by \<open>ToNumber\<close>.\<close>

definition js_le :: "number \<Rightarrow> jsval \<Rightarrow> bool" where
  "js_le a v = num_le a (ToNumber v)"

definition js_ge :: "number \<Rightarrow> jsval \<Rightarrow> bool" where
  "js_ge a v = num_le (ToNumber v) a"

definition isNaN :: "number \<Rightarrow> bool" where
  "isNaN n = (n = NaN)"

section \<open>The built-in \<open>parseFloat\<close>\<close>

text \<open>White space and line terminators skipped by \<open>parseFloat\<close> before the literal.\<close>

definition isWhiteSpace :: "code_unit \<Rightarrow> bool" where
  "isWhiteSpace c =
     (c = 0x09 \<or> c = 0x0A \<or> c = 0x0B \<or> c = 0x0C \<or> c = 0x0D \<or> c = 0x20 \<or> c = 0xA0
      \<or> c = 0x1680 \<or> (0x2000 \<le> c \<and> c \<le> 0x200A) \<or> c = 0x2028 \<or> c = 0x2029
      \<or> c = 0x202F \<or> c = 0x205F \<or> c = 0x3000 \<or> c = 0xFEFF)"

definition isDigit :: "code_unit \<Rightarrow> bool" where
  "isDigit c = (0x30 \<le> c \<and> c \<le> 0x39)"

definition digitVal :: "code_unit \<Rightarrow> nat" where
  "digitVal c = unat c - 48"

definition digitsVal :: "jsstring \<Rightarrow> nat" where
  "digitsVal ds = foldl (\<lambda>a c. 10 * a + digitVal c) 0 ds"

text \<open>The exponent of the longest \<open>ExponentPart\<close> at the front of the text: \<open>e\<close> or
  \<open>E\<close>, an optional sign and at least one digit; \<open>0\<close> when there is none.\<close>

definition exponentPart :: "jsstring \<Rightarrow> int" where
  "exponentPart cs =
     (case cs of
        [] \<Rightarrow> 0
      | c # r \<Rightarrow>
          if c = 0x65 \<or> c = 0x45 then
            (case r of
               [] \<Rightarrow> 0
             | d # r' \<Rightarrow>
                 if d = 0x2B then int (digitsVal (takeWhile isDigit r'))
                 else if d = 0x2D then - int (digitsVal (takeWhile isDigit r'))
                 else int (digitsVal (takeWhile isDigit r)))
          else 0)"

text \<open>The longest prefix that is a \<open>StrUnsignedDecimalLiteral\<close> other than
  \<open>Infinity\<close>: digits with an optional fraction, or a dot followed by digits, and an
  optional exponent. Its mathematical value is \<open>m * 10 ^ k\<close> for the pair \<open>(m, k)\<close>
  returned: \<open>m\<close> reads the digits before and after the dot as one numeral, \<open>k\<close> is the
  exponent less the number of digits after the dot. \<open>None\<close> when no prefix is a
  literal.\<close>

definition unsignedDecimal :: "jsstring \<Rightarrow> (nat \<times> int) option" where
  "unsignedDecimal cs =
     (let ip = takeWhile isDigit cs; r1 = dropWhile isDigit cs in
      if r1 \<noteq> [] \<and> hd r1 = 0x2E then
        (let fp = takeWhile isDigit (tl r1); r2 = dropWhile isDigit (tl r1) in
         if ip = [] \<and> fp = [] then None
         else Some (digitsVal (ip @ fp), exponentPart r2 - int (length fp)))
      else if ip = [] then None
      else Some (digitsVal ip, exponentPart r1))"

subsection \<open>The Number value of a decimal\<close>

text \<open>The number of binary digits of a natural number.\<close>

fun bitLength :: "nat \<Rightarrow> nat" where
  "bitLength n = (if n = 0 then 0 else Suc (bitLength (n div 2)))"

declare bitLength.simps [simp del]

definition pow2 :: "int \<Rightarrow> real" where
  "pow2 e = (if 0 \<le> e then 2 ^ nat e else 1 / 2 ^ nat (- e))"

text \<open>For positive \<open>p\<close> and \<open>q\<close>, the integer \<open>e\<close> with \<open>2 ^ e <= p / q < 2 ^ (e + 1)\<close>.\<close>

definition floorLog2 :: "nat \<Rightarrow> nat \<Rightarrow> int" where
  "floorLog2 p q =
     (let e0 = int (bitLength p) - int (bitLength q) in
      if (if 0 \<le> e0 then q * 2 ^ nat e0 \<le> p else q \<le> p * 2 ^ nat (- e0)) then e0
      else e0 - 1)"

text \<open>The integer nearest to \<open>a / b\<close>, the even one of two that are equally near.\<close>

definition roundHalfEven :: "nat \<Rightarrow> nat \<Rightarrow> nat" where
  "roundHalfEven a b =
     (let n = a div b; r = a mod b in
      if 2 * r < b then n else if b < 2 * r then n + 1 else if even n then n else n + 1)"

text \<open>The Number value of the fraction \<open>p / q\<close> (with \<open>q > 0\<close>): the nearest double, ties to
  the even significand. The doubles near \<open>p / q\<close> are the multiples of \<open>2 ^ s\<close>, where
  \<open>s\<close> is 52 below the binary exponent of \<open>p / q\<close> and at least \<open>-1074\<close> (the
  subnormal range); a result of \<open>2 ^ 1024\<close> or more is \<open>Infinity\<close>.\<close>

definition roundDouble :: "nat \<Rightarrow> nat \<Rightarrow> number" where
  "roundDouble p q =
     (if p = 0 then Fin 0
      else
        let s = max (floorLog2 p q) (- 1022) - 52;
            n = (if 0 \<le> s then roundHalfEven p (q * 2 ^ nat s)
                 else roundHalfEven (p * 2 ^ nat (- s)) q)
        in if 0 \<le> s \<and> 2 ^ 1024 \<le> n * 2 ^ nat s then PosInf else Fin (real n * pow2 s))"

text \<open>The Number value of \<open>m * 10 ^ k\<close>.\<close>

definition decimalNumber :: "nat \<Rightarrow> int \<Rightarrow> number" where
  "decimalNumber m k =
     (if 0 \<le> k then roundDouble (m * 10 ^ nat k) 1 else roundDouble m (10 ^ nat (- k)))"

fun negate :: "number \<Rightarrow> number" where
  "negate NaN = NaN"
| "negate NegInf = PosInf"
| "negate (Fin x) = Fin (- x)"
| "negate PosInf = NegInf"

subsection \<open>\<open>parseFloat\<close>\<close>

text \<open>\<open>parseFloat\<close> on a string: skip leading white space, read an optional sign, then
  the longest prefix that is \<open>Infinity\<close> or a decimal literal; the rest of the text is
  ignored. The result is the Number value of the literal, and NaN when there is no such
  prefix.\<close>

definition parseFloat :: "jsstring \<Rightarrow> number" where
  "parseFloat s =
     (let t = dropWhile isWhiteSpace s;
          neg = (t \<noteq> [] \<and> hd t = 0x2D);
          u = (if t \<noteq> [] \<and> (hd t = 0x2D \<or> hd t = 0x2B) then tl t else t)
      in if take 8 u = js ''Infinity'' then (if neg then NegInf else PosInf)
         else (case unsignedDecimal u of
                 None \<Rightarrow> NaN
               | Some (m, k) \<Rightarrow> if neg then negate (decimalNumber m k) else decimalNumber m k))"

text \<open>The Number value of a numeric literal of the source text, such as \<open>0.05\<close>.\<close>

definition lit :: "string \<Rightarrow> jsval" where
  "lit s =
     Num (case unsignedDecimal (js s) of None \<Rightarrow> NaN | Some (m, k) \<Rightarrow> decimalNumber m k)"

section \<open>The limit table\<close>

text \<open>A finite number as a value, and the shapes of the object literals of
  \<open>complianceLimits\<close>: a \<open>{min, max}\<close> pair, an entry with the key \<open>F\<close> only, the
  three tiers \<open>{F, P, A}\<close>, and the two industries \<open>{T, L}\<close>. The numbers of the table
  are the Number values of their literals.\<close>

abbreviation num :: "real \<Rightarrow> jsval" where
  "num x \<equiv> Num (Fin x)"

abbreviation minMax :: "jsval \<Rightarrow> jsval \<Rightarrow> jsval" where
  "minMax mn mx \<equiv> Obj [(''min'', mn), (''max'', mx)]"

abbreviation onlyF :: "jsval \<Rightarrow> jsval" where
  "onlyF f \<equiv> Obj [(''F'', f)]"

abbreviation tiers :: "jsval \<Rightarrow> jsval \<Rightarrow> jsval \<Rightarrow> jsval" where
  "tiers f p a \<equiv> Obj [(''F'', f), (''P'', p), (''A'', a)]"

abbreviation byIndustry :: "jsval \<Rightarrow> jsval \<Rightarrow> jsval" where
  "byIndustry t l \<equiv> Obj [(''T'', t), (''L'', l)]"

definition mrsl_limits :: "(string \<times> jsval) list" where
  "mrsl_limits =
     [(''np'', onlyF (lit ''5'')),
      (''npeo'', onlyF (lit ''5'')),
      (''op'', onlyF (lit ''5'')),
      (''opeo'', onlyF (lit ''5'')),
      (''triclosan'', onlyF (lit ''100'')),
      (''permethrin'', onlyF (lit ''500'')),
      (''sccps'', onlyF (lit ''25'')),
      (''mccps'', onlyF (lit ''500'')),
      (''pcp'', onlyF (lit ''0.5'')),
      (''benzene'', onlyF (lit ''1'')),
      (''toluene'', onlyF (lit ''1'')),
      (''xylene'', onlyF (lit ''1'')),
      (''dehp'', onlyF (lit ''10'')),
      (''pfos'', onlyF (lit ''0.01'')),
      (''pfoa'', onlyF (lit ''1'')),
      (''benzidine'', onlyF (lit ''0.1'')),
      (''o_toluidine'', onlyF (lit ''0.1''))]"

definition heavyMetals_limits :: "(string \<times> jsval) list" where
  "heavyMetals_limits =
     [(''arsenic'', byIndustry (tiers (lit ''0.05'') (lit ''0.01'') (lit ''0.005''))
          (tiers (lit ''0.05'') (lit ''0.01'') (lit ''0.005''))),
      (''cadmium'', byIndustry (tiers (lit ''0.01'') (lit ''0.005'') (lit ''0.001''))
          (tiers (lit ''0.01'') (lit ''0.005'') (lit ''0.001''))),
      (''chromiumVI'', byIndustry (tiers (lit ''0.05'') (lit ''0.01'') (lit ''0.005''))
          (tiers (lit ''0.15'') (lit ''0.05'') (lit ''0.01''))),
      (''totalChromium'', byIndustry (tiers (lit ''0.2'') (lit ''0.1'') (lit ''0.05''))
          (tiers (lit ''0.5'') (lit ''0.2'') (lit ''0.1''))),
      (''copper'', byIndustry (tiers (lit ''0.1'') (lit ''0.05'') (lit ''0.02''))
          (tiers (lit ''0.1'') (lit ''0.05'') (lit ''0.02''))),
      (''lead'', byIndustry (tiers (lit ''0.05'') (lit ''0.01'') (lit ''0.005''))
          (tiers (lit ''0.05'') (lit ''0.01'') (lit ''0.005''))),
      (''mercury'', byIndustry (tiers (lit ''0.01'') (lit ''0.005'') (lit ''0.001''))
          (tiers (lit ''0.01'') (lit ''0.005'') (lit ''0.001''))),
      (''nickel'', byIndustry (tiers (lit ''0.2'') (lit ''0.1'') (lit ''0.05''))
          (tiers (lit ''0.2'') (lit ''0.1'') (lit ''0.05''))),
      (''zinc'', byIndustry (tiers (lit ''0.5'') (lit ''0.2'') (lit ''0.1''))
          (tiers (lit ''0.5'') (lit ''0.2'') (lit ''0.1'')))]"

definition conventional_limits :: "(string \<times> jsval) list" where
  "conventional_limits =
     [(''ph'', byIndustry (tiers (minMax (lit ''6'') (lit ''9'')) (minMax (lit ''6'') (lit ''9'')) (minMax (lit ''6'') (lit ''9'')))
          (tiers (minMax (lit ''6'') (lit ''9'')) (minMax (lit ''6'') (lit ''9'')) (minMax (lit ''6'') (lit ''9'')))),
      (''temp_diff'', byIndustry (tiers (lit ''15'') (lit ''10'') (lit ''5''))
          (tiers (lit ''15'') (lit ''10'') (lit ''5''))),
      (''e_coli'', byIndustry (tiers (lit ''126'') (lit ''100'') (lit ''50''))
          (tiers (lit ''126'') (lit ''100'') (lit ''50''))),
      (''bod5'', byIndustry (tiers (lit ''30'') (lit ''20'') (lit ''10''))
          (tiers (lit ''50'') (lit ''30'') (lit ''15''))),
      (''cod'', byIndustry (tiers (lit ''150'') (lit ''80'') (lit ''40''))
          (tiers (lit ''250'') (lit ''150'') (lit ''75''))),
      (''tss'', byIndustry (tiers (lit ''50'') (lit ''30'') (lit ''15''))
          (tiers (lit ''70'') (lit ''40'') (lit ''20''))),
      (''aox'', byIndustry (tiers (lit ''3'') (lit ''1'') (lit ''0.5''))
          (tiers (lit ''3'') (lit ''1'') (lit ''0.5''))),
      (''oil_grease'', byIndustry (tiers (lit ''10'') (lit ''5'') (lit ''2''))
          (tiers (lit ''20'') (lit ''10'') (lit ''5''))),
      (''total_phenols'', byIndustry (tiers (lit ''0.5'') (lit ''0.1'') (lit ''0.05''))
          (tiers (lit ''0.5'') (lit ''0.1'') (lit ''0.05''))),
      (''total_nitrogen'', byIndustry (tiers (lit ''20'') (lit ''10'') (lit ''5''))
          (tiers (lit ''35'') (lit ''20'') (lit ''10''))),
      (''total_phosphorus'', byIndustry (tiers (lit ''3'') (lit ''1'') (lit ''0.5''))
          (tiers (lit ''3'') (lit ''1'') (lit ''0.5''))),
      (''sulphide'', byIndustry (tiers (lit ''0.5'') (lit ''0.1'') (lit ''0.05''))
          (tiers (lit ''1'') (lit ''0.2'') (lit ''0.1'')))]"

definition sludge_limits :: "(string \<times> jsval) list" where
  "sludge_limits =
     [(''np'', onlyF (lit ''0.4'')),
      (''pcp'', onlyF (lit ''0.2'')),
      (''arsenic_sludge'', onlyF (lit ''5'')),
      (''chromiumVI_sludge'', onlyF (lit ''0.5'')),
      (''mercury_sludge'', onlyF (lit ''0.1'')),
      (''ph_sludge'', onlyF (minMax (lit ''5'') (lit ''11''))),
      (''faecal_coliform'', onlyF (lit ''1000''))]"

definition complianceLimits :: jsval where
  "complianceLimits =
     Obj [(''mrsl'', Obj mrsl_limits),
          (''heavyMetals'', Obj heavyMetals_limits),
          (''conventional'', Obj conventional_limits),
          (''sludge'', Obj sludge_limits)]"

text \<open>A property read on the constant table, as in \<open>complianceLimits.mrsl.np\<close>: every
  base read this way is an object of the table.\<close>

definition field :: "jsval \<Rightarrow> string \<Rightarrow> jsval" where
  "field v k = (case getProp v k of Inl e \<Rightarrow> Undefined | Inr x \<Rightarrow> x)"

section \<open>The component state read by the evaluation\<close>

text \<open>The two selectors take the values offered by their \<open>select\<close> elements; the
  state holds the option's one-letter key.\<close>

datatype industry = Textile | Leather

datatype level = Foundational | Progressive | Aspirational

datatype discharge = Direct | Indirect | ZLD

fun industryKey :: "industry \<Rightarrow> string" where
  "industryKey Textile = ''T''"
| "industryKey Leather = ''L''"

fun levelKey :: "level \<Rightarrow> string" where
  "levelKey Foundational = ''F''"
| "levelKey Progressive = ''P''"
| "levelKey Aspirational = ''A''"

text \<open>\<open>params\<close> maps a parameter id to the raw text of its input field; an id without
  a property reads as \<open>undefined\<close>.\<close>

record form_state =
  params :: "string \<Rightarrow> jsstring option"
  industryType :: industry
  complianceLevel :: level
  dischargeType :: discharge

section \<open>Parameter definitions\<close>

text \<open>An entry of the four parameter arrays. \<open>p_unit\<close> is \<open>None\<close> and \<open>p_isRange\<close> is
  \<open>False\<close> where the literal has no such property.\<close>

record param =
  p_id :: string
  p_name :: jsstring
  p_limits :: jsval
  p_unit :: "jsstring option"
  p_isRange :: bool

definition mrslParams :: "param list" where
  "mrslParams =
     [\<lparr>p_id = ''np'', p_name = js ''Nonylphenol (NP)'',
       p_limits = field (field complianceLimits ''mrsl'') ''np'', p_unit = Some ([0xB5] @ js ''g/L''),
       p_isRange = False\<rparr>,
      \<lparr>p_id = ''npeo'', p_name = js ''Nonylphenol Ethoxylates (NPEO)'',
       p_limits = field (field complianceLimits ''mrsl'') ''npeo'', p_unit = Some ([0xB5] @ js ''g/L''),
       p_isRange = False\<rparr>,
      \<lparr>p_id = ''op'', p_name = js ''Octylphenol (OP)'',
       p_limits = field (field complianceLimits ''mrsl'') ''op'', p_unit = Some ([0xB5] @ js ''g/L''),
       p_isRange = False\<rparr>,
      \<lparr>p_id = ''opeo'', p_name = js ''Octylphenol Ethoxylates (OPEO)'',
       p_limits = field (field complianceLimits ''mrsl'') ''opeo'', p_unit = Some ([0xB5] @ js ''g/L''),
       p_isRange = False\<rparr>,
      \<lparr>p_id = ''triclosan'', p_name = js ''Triclosan'',
       p_limits = field (field complianceLimits ''mrsl'') ''triclosan'', p_unit = Some ([0xB5] @ js ''g/L''),
       p_isRange = False\<rparr>,
      \<lparr>p_id = ''permethrin'', p_name = js ''Permethrin'',
       p_limits = field (field complianceLimits ''mrsl'') ''permethrin'', p_unit = Some ([0xB5] @ js ''g/L''),
       p_isRange = False\<rparr>,
      \<lparr>p_id = ''sccps'', p_name = js ''SCCPs'',
       p_limits = field (field complianceLimits ''mrsl'') ''sccps'', p_unit = Some ([0xB5] @ js ''g/L''),
       p_isRange = False\<rparr>,
      \<lparr>p_id = ''mccps'', p_name = js ''MCCPs'',
       p_limits = field (field complianceLimits ''mrsl'') ''mccps'', p_unit = Some ([0xB5] @ js ''g/L''),
       p_isRange = False\<rparr>,
      \<lparr>p_id = ''pcp'', p_name = js ''Pentachlorophenol (PCP)'',
       p_limits = field (field complianceLimits ''mrsl'') ''pcp'', p_unit = Some ([0xB5] @ js ''g/L''),
       p_isRange = False\<rparr>,
      \<lparr>p_id = ''benzene'', p_name = js ''Benzene'',
       p_limits = field (field complianceLimits ''mrsl'') ''benzene'', p_unit = Some ([0xB5] @ js ''g/L''),
       p_isRange = False\<rparr>,
      \<lparr>p_id = ''toluene'', p_name = js ''Toluene'',
       p_limits = field (field complianceLimits ''mrsl'') ''toluene'', p_unit = Some ([0xB5] @ js ''g/L''),
       p_isRange = False\<rparr>,
      \<lparr>p_id = ''xylene'', p_name = js ''Xylene'',
       p_limits = field (field complianceLimits ''mrsl'') ''xylene'', p_unit = Some ([0xB5] @ js ''g/L''),
       p_isRange = False\<rparr>,
      \<lparr>p_id = ''dehp'', p_name = js ''DEHP (Phthalate)'',
       p_limits = field (field complianceLimits ''mrsl'') ''dehp'', p_unit = Some ([0xB5] @ js ''g/L''),
       p_isRange = False\<rparr>,
      \<lparr>p_id = ''pfos'', p_name = js ''PFOS'',
       p_limits = field (field complianceLimits ''mrsl'') ''pfos'', p_unit = Some ([0xB5] @ js ''g/L''),
       p_isRange = False\<rparr>,
      \<lparr>p_id = ''pfoa'', p_name = js ''PFOA'',
       p_limits = field (field complianceLimits ''mrsl'') ''pfoa'', p_unit = Some ([0xB5] @ js ''g/L''),
       p_isRange = False\<rparr>,
      \<lparr>p_id = ''benzidine'', p_name = js ''Benzidine'',
       p_limits = field (field complianceLimits ''mrsl'') ''benzidine'', p_unit = Some ([0xB5] @ js ''g/L''),
       p_isRange = False\<rparr>,
      \<lparr>p_id = ''o_toluidine'', p_name = js ''o-Toluidine'',
       p_limits = field (field complianceLimits ''mrsl'') ''o_toluidine'', p_unit = Some ([0xB5] @ js ''g/L''),
       p_isRange = False\<rparr>]"

definition heavyMetalParams :: "param list" where
  "heavyMetalParams =
     [\<lparr>p_id = ''arsenic'', p_name = js ''Arsenic'',
       p_limits = field (field complianceLimits ''heavyMetals'') ''arsenic'', p_unit = Some (js ''mg/L''),
       p_isRange = False\<rparr>,
      \<lparr>p_id = ''cadmium'', p_name = js ''Cadmium'',
       p_limits = field (field complianceLimits ''heavyMetals'') ''cadmium'', p_unit = Some (js ''mg/L''),
       p_isRange = False\<rparr>,
      \<lparr>p_id = ''chromiumVI'', p_name = js ''Chromium (VI)'',
       p_limits = field (field complianceLimits ''heavyMetals'') ''chromiumVI'', p_unit = Some (js ''mg/L''),
       p_isRange = False\<rparr>,
      \<lparr>p_id = ''totalChromium'', p_name = js ''Chromium, total'',
       p_limits = field (field complianceLimits ''heavyMetals'') ''totalChromium'', p_unit = Some (js ''mg/L''),
       p_isRange = False\<rparr>,
      \<lparr>p_id = ''copper'', p_name = js ''Copper'',
       p_limits = field (field complianceLimits ''heavyMetals'') ''copper'', p_unit = Some (js ''mg/L''),
       p_isRange = False\<rparr>,
      \<lparr>p_id = ''lead'', p_name = js ''Lead'',
       p_limits = field (field complianceLimits ''heavyMetals'') ''lead'', p_unit = Some (js ''mg/L''),
       p_isRange = False\<rparr>,
      \<lparr>p_id = ''mercury'', p_name = js ''Mercury'',
       p_limits = field (field complianceLimits ''heavyMetals'') ''mercury'', p_unit = Some (js ''mg/L''),
       p_isRange = False\<rparr>,
      \<lparr>p_id = ''nickel'', p_name = js ''Nickel'',
       p_limits = field (field complianceLimits ''heavyMetals'') ''nickel'', p_unit = Some (js ''mg/L''),
       p_isRange = False\<rparr>,
      \<lparr>p_id = ''zinc'', p_name = js ''Zinc'',
       p_limits = field (field complianceLimits ''heavyMetals'') ''zinc'', p_unit = Some (js ''mg/L''),
       p_isRange = False\<rparr>]"

definition conventionalParams :: "param list" where
  "conventionalParams =
     [\<lparr>p_id = ''ph'', p_name = js ''pH'',
       p_limits = field (field complianceLimits ''conventional'') ''ph'', p_unit = None,
       p_isRange = True\<rparr>,
      \<lparr>p_id = ''temp_diff'', p_name = js ''Temperature Difference ('' @ [0x394, 0xB0] @ js ''C)'',
       p_limits = field (field complianceLimits ''conventional'') ''temp_diff'', p_unit = Some ([0xB0] @ js ''C''),
       p_isRange = False\<rparr>,
      \<lparr>p_id = ''e_coli'', p_name = js ''E.coli'',
       p_limits = field (field complianceLimits ''conventional'') ''e_coli'', p_unit = Some (js ''MPN/100-ml''),
       p_isRange = False\<rparr>,
      \<lparr>p_id = ''bod5'', p_name = js ''BOD5'',
       p_limits = field (field complianceLimits ''conventional'') ''bod5'', p_unit = Some (js ''mg/L''),
       p_isRange = False\<rparr>,
      \<lparr>p_id = ''cod'', p_name = js ''COD'',
       p_limits = field (field complianceLimits ''conventional'') ''cod'', p_unit = Some (js ''mg/L''),
       p_isRange = False\<rparr>,
      \<lparr>p_id = ''tss'', p_name = js ''TSS'',
       p_limits = field (field complianceLimits ''conventional'') ''tss'', p_unit = Some (js ''mg/L''),
       p_isRange = False\<rparr>,
      \<lparr>p_id = ''aox'', p_name = js ''AOX'',
       p_limits = field (field complianceLimits ''conventional'') ''aox'', p_unit = Some (js ''mg/L''),
       p_isRange = False\<rparr>,
      \<lparr>p_id = ''oil_grease'', p_name = js ''Oil and Grease'',
       p_limits = field (field complianceLimits ''conventional'') ''oil_grease'', p_unit = Some (js ''mg/L''),
       p_isRange = False\<rparr>,
      \<lparr>p_id = ''total_phenols'', p_name = js ''Total Phenols'',
       p_limits = field (field complianceLimits ''conventional'') ''total_phenols'', p_unit = Some (js ''mg/L''),
       p_isRange = False\<rparr>,
      \<lparr>p_id = ''total_nitrogen'', p_name = js ''Total Nitrogen'',
       p_limits = field (field complianceLimits ''conventional'') ''total_nitrogen'', p_unit = Some (js ''mg/L''),
       p_isRange = False\<rparr>,
      \<lparr>p_id = ''total_phosphorus'', p_name = js ''Total Phosphorus'',
       p_limits = field (field complianceLimits ''conventional'') ''total_phosphorus'', p_unit = Some (js ''mg/L''),
       p_isRange = False\<rparr>,
      \<lparr>p_id = ''sulphide'', p_name = js ''Sulphide'',
       p_limits = field (field complianceLimits ''conventional'') ''sulphide'', p_unit = Some (js ''mg/L''),
       p_isRange = False\<rparr>]"

definition sludgeParams :: "param list" where
  "sludgeParams =
     [\<lparr>p_id = ''np_sludge'', p_name = js ''Nonylphenol (Sludge)'',
       p_limits = field (field complianceLimits ''sludge'') ''np'', p_unit = Some (js ''mg/kg''),
       p_isRange = False\<rparr>,
      \<lparr>p_id = ''pcp_sludge'', p_name = js ''PCP (Sludge)'',
       p_limits = field (field complianceLimits ''sludge'') ''pcp'', p_unit = Some (js ''mg/kg''),
       p_isRange = False\<rparr>,
      \<lparr>p_id = ''arsenic_sludge'', p_name = js ''Arsenic (Sludge)'',
       p_limits = field (field complianceLimits ''sludge'') ''arsenic_sludge'', p_unit = Some (js ''mg/kg''),
       p_isRange = False\<rparr>,
      \<lparr>p_id = ''chromiumVI_sludge'', p_name = js ''Chromium (VI) (Sludge)'',
       p_limits = field (field complianceLimits ''sludge'') ''chromiumVI_sludge'', p_unit = Some (js ''mg/kg''),
       p_isRange = False\<rparr>,
      \<lparr>p_id = ''mercury_sludge'', p_name = js ''Mercury (Sludge)'',
       p_limits = field (field complianceLimits ''sludge'') ''mercury_sludge'', p_unit = Some (js ''mg/kg''),
       p_isRange = False\<rparr>,
      \<lparr>p_id = ''ph_sludge'', p_name = js ''pH (Sludge)'',
       p_limits = field (field complianceLimits ''sludge'') ''ph_sludge'', p_unit = None,
       p_isRange = True\<rparr>,
      \<lparr>p_id = ''faecal_coliform'', p_name = js ''Faecal Coliform (Sludge)'',
       p_limits = field (field complianceLimits ''sludge'') ''faecal_coliform'', p_unit = Some (js ''MPN/g''),
       p_isRange = False\<rparr>]"

text \<open>The declaration order of all parameters.\<close>

definition allParams :: "param list" where
  "allParams = mrslParams @ heavyMetalParams @ conventionalParams @ sludgeParams"

section \<open>Value parser and limit resolver\<close>

text \<open>\<open>getInputValue\<close>: \<open>parseFloat(params[id])\<close>, with \<open>null\<close> (here \<open>None\<close>) for NaN.
  \<open>parseFloat\<close> converts a missing property to the text \<open>undefined\<close>.\<close>

definition getInputValue :: "form_state \<Rightarrow> string \<Rightarrow> number option" where
  "getInputValue c ident =
     (let v = parseFloat (case params c ident of None \<Rightarrow> js ''undefined'' | Some s \<Rightarrow> s)
      in if isNaN v then None else Some v)"

text \<open>Sequencing of steps that may throw: the first exception ends the run.\<close>

definition andThen :: "error + 'a \<Rightarrow> ('a \<Rightarrow> error + 'b) \<Rightarrow> error + 'b" where
  "andThen m f = (case m of Inl e \<Rightarrow> Inl e | Inr x \<Rightarrow> f x)"

definition getLimit :: "form_state \<Rightarrow> jsval \<Rightarrow> error + jsval" where
  "getLimit c paramLimits =
     (if falsy paramLimits then Inr Null
      else
        andThen (getProp paramLimits (industryKey (industryType c))) (\<lambda>branch.
        let levelLimits = (if branch \<noteq> Undefined then branch else paramLimits) in
        andThen (getProp levelLimits (levelKey (complianceLevel c))) (\<lambda>limit.
        andThen (if limit = Undefined
              then andThen (getProp levelLimits ''F'')
                     (\<lambda>f. Inr (if f \<noteq> Undefined then f else limit))
              else Inr limit) (\<lambda>limit'.
        Inr (if limit' \<noteq> Undefined then limit' else Null)))))"

section \<open>The check action\<close>

datatype shown_value = Value number | NA

text \<open>The limit column: the template text \<open>${limit.min}-${limit.max}\<close> for an object,
  represented by its two interpolated values, and the limit itself otherwise.\<close>

datatype limit_display = Template jsval jsval | Plain jsval

record result =
  paramName :: jsstring
  r_value :: shown_value
  r_limit :: limit_display
  isCompliant :: bool
  r_unit :: jsstring

record chart_point =
  c_id :: string
  c_name :: jsstring
  c_value :: number
  c_limit :: jsval
  c_minLimit :: "jsval option"
  c_unit :: "jsstring option"

text \<open>The three local variables of \<open>checkCompliance\<close>.\<close>

record check_state =
  newResults :: "result list"
  allCompliant :: bool
  newChartData :: "chart_point list"

definition limitDisplay :: "jsval \<Rightarrow> limit_display" where
  "limitDisplay limit =
     (case limit of
        Obj kvs \<Rightarrow> Template (field limit ''min'') (field limit ''max'')
      | _ \<Rightarrow> Plain limit)"

text \<open>\<open>addResult\<close>; the unit defaults to the empty text when it is omitted or
  \<open>undefined\<close>.\<close>

definition addResult ::
  "jsstring \<Rightarrow> number option \<Rightarrow> jsval \<Rightarrow> bool \<Rightarrow> jsstring option \<Rightarrow> check_state \<Rightarrow> check_state" where
  "addResult name v limit compliant u s =
     s\<lparr>newResults := newResults s @
          [\<lparr>paramName = name,
            r_value = (case v of None \<Rightarrow> NA | Some x \<Rightarrow> Value x),
            r_limit = limitDisplay limit,
            isCompliant = compliant,
            r_unit = (case u of None \<Rightarrow> [] | Some t \<Rightarrow> t)\<rparr>],
       allCompliant := (if \<not> compliant then False else allCompliant s)\<rparr>"

text \<open>\<open>value !== null && limit !== null ? value <= limit : true\<close>\<close>

definition scalarCompliant :: "number option \<Rightarrow> jsval \<Rightarrow> bool" where
  "scalarCompliant v limit =
     (case v of
        None \<Rightarrow> True
      | Some x \<Rightarrow> if limit \<noteq> Null then js_le x limit else True)"

text \<open>\<open>value !== null && limit !== null ? (value >= limit.min && value <= limit.max) : true\<close>;
  \<open>limit.max\<close> is read only when the first comparison holds.\<close>

definition rangeCompliant :: "number option \<Rightarrow> jsval \<Rightarrow> error + bool" where
  "rangeCompliant v limit =
     (case v of
        None \<Rightarrow> Inr True
      | Some x \<Rightarrow>
          if limit \<noteq> Null then
            andThen (getProp limit ''min'') (\<lambda>mn.
              if js_ge x mn then andThen (getProp limit ''max'') (\<lambda>mx. Inr (js_le x mx))
              else Inr False)
          else Inr True)"

text \<open>The chart pushes, guarded by \<open>value !== null && limit !== null\<close>.\<close>

definition pushScalar :: "param \<Rightarrow> number option \<Rightarrow> jsval \<Rightarrow> check_state \<Rightarrow> check_state" where
  "pushScalar p v limit s =
     (case v of
        None \<Rightarrow> s
      | Some x \<Rightarrow>
          if limit \<noteq> Null then
            s\<lparr>newChartData := newChartData s @
                 [\<lparr>c_id = p_id p, c_name = p_name p, c_value = x, c_limit = limit,
                   c_minLimit = None, c_unit = p_unit p\<rparr>]\<rparr>
          else s)"

definition pushRange :: "param \<Rightarrow> number option \<Rightarrow> jsval \<Rightarrow> check_state \<Rightarrow> error + check_state" where
  "pushRange p v limit s =
     (case v of
        None \<Rightarrow> Inr s
      | Some x \<Rightarrow>
          if limit \<noteq> Null then
            andThen (getProp limit ''max'') (\<lambda>mx.
            andThen (getProp limit ''min'') (\<lambda>mn.
              Inr (s\<lparr>newChartData := newChartData s @
                     [\<lparr>c_id = p_id p, c_name = p_name p, c_value = x, c_limit = mx,
                       c_minLimit = Some mn, c_unit = p_unit p\<rparr>]\<rparr>)))
          else Inr s)"

text \<open>The bodies of the four \<open>forEach\<close> callbacks.\<close>

definition mrslBody :: "form_state \<Rightarrow> param \<Rightarrow> check_state \<Rightarrow> error + check_state" where
  "mrslBody c p s =
     (let v = getInputValue c (p_id p) in
      andThen (getLimit c (p_limits p)) (\<lambda>limit.
        Inr (pushScalar p v limit
               (addResult (p_name p) v limit (scalarCompliant v limit) (p_unit p) s))))"

definition heavyMetalBody :: "form_state \<Rightarrow> param \<Rightarrow> check_state \<Rightarrow> error + check_state" where
  "heavyMetalBody c p s =
     (let v = getInputValue c (p_id p) in
      andThen (getLimit c (p_limits p)) (\<lambda>limit.
        Inr (pushScalar p v limit
               (addResult (p_name p) v limit (scalarCompliant v limit) (p_unit p) s))))"

definition conventionalBody :: "form_state \<Rightarrow> param \<Rightarrow> check_state \<Rightarrow> error + check_state" where
  "conventionalBody c p s =
     (let v = getInputValue c (p_id p) in
      andThen (getLimit c (p_limits p)) (\<lambda>limit.
        if p_isRange p then
          andThen (rangeCompliant v limit) (\<lambda>compliant.
            pushRange p v limit (addResult (p_name p) v limit compliant None s))
        else
          Inr (pushScalar p v limit
                 (addResult (p_name p) v limit (scalarCompliant v limit) (p_unit p) s))))"

definition sludgeBody :: "form_state \<Rightarrow> param \<Rightarrow> check_state \<Rightarrow> error + check_state" where
  "sludgeBody c p s =
     (let v = getInputValue c (p_id p) in
      andThen (getLimit c (p_limits p)) (\<lambda>limit.
        if p_isRange p then
          andThen (rangeCompliant v limit) (\<lambda>compliant.
            Inr (addResult (p_name p) v limit compliant None s))
        else
          Inr (addResult (p_name p) v limit (scalarCompliant v limit) (p_unit p) s)))"

text \<open>\<open>Array.prototype.forEach\<close> with a callback that may throw.\<close>

fun forEach :: "('a \<Rightarrow> 's \<Rightarrow> error + 's) \<Rightarrow> 'a list \<Rightarrow> 's \<Rightarrow> error + 's" where
  "forEach f [] s = Inr s"
| "forEach f (x # xs) s = (case f x s of Inl e \<Rightarrow> Inl e | Inr s' \<Rightarrow> forEach f xs s')"

text \<open>\<open>checkCompliance\<close>: the final values of \<open>newResults\<close>, \<open>allCompliant\<close> and
  \<open>newChartData\<close>, which the component stores as its results, overall flag and chart
  data.\<close>

definition checkCompliance :: "form_state \<Rightarrow> error + check_state" where
  "checkCompliance c =
     andThen (forEach (mrslBody c) mrslParams
             \<lparr>newResults = [], allCompliant = True, newChartData = []\<rparr>) (\<lambda>s1.
     andThen (forEach (heavyMetalBody c) heavyMetalParams s1) (\<lambda>s2.
     andThen (forEach (conventionalBody c) conventionalParams s2) (\<lambda>s3.
     forEach (sludgeBody c) sludgeParams s3)))"

text \<open>The initial value of \<open>params\<close>: every input field is empty.\<close>

definition initialParams :: "string \<Rightarrow> jsstring option" where
  "initialParams =
     map_of (map (\<lambda>k. (k, []))
       [''np'', ''npeo'', ''op'', ''opeo'', ''triclosan'', ''permethrin'',
        ''sccps'', ''mccps'', ''pcp'', ''benzene'', ''toluene'', ''xylene'',
        ''dehp'', ''pfos'', ''pfoa'', ''benzidine'', ''o_toluidine'',
        ''arsenic'', ''cadmium'', ''chromiumVI'', ''totalChromium'',
        ''copper'', ''lead'', ''mercury'', ''nickel'', ''zinc'',
        ''ph'', ''temp_diff'', ''e_coli'', ''bod5'', ''cod'', ''tss'',
        ''aox'', ''oil_grease'', ''total_phenols'', ''total_nitrogen'',
        ''total_phosphorus'', ''sulphide'',
        ''np_sludge'', ''pcp_sludge'', ''arsenic_sludge'', ''chromiumVI_sludge'',
        ''mercury_sludge'', ''ph_sludge'', ''faecal_coliform''])"

section \<open>Notions of the specification\<close>

text \<open>The limit resolver as the specification words it, on the same values: an absent
  spec resolves to nothing; a spec with an entry for the industry is resolved in that
  entry, any other spec is itself the flat spec; the flat spec gives the entry of the
  requested tier, else its Foundational entry, else nothing.\<close>

definition entry :: "jsval \<Rightarrow> string \<Rightarrow> jsval option" where
  "entry spec k = (case spec of Obj kvs \<Rightarrow> map_of kvs k | _ \<Rightarrow> None)"

definition resolveLimit :: "jsval \<Rightarrow> industry \<Rightarrow> level \<Rightarrow> jsval option" where
  "resolveLimit spec ind tier =
     (if spec = Undefined \<or> spec = Null then None
      else
        let flat = (case entry spec (industryKey ind) of Some branch \<Rightarrow> branch | None \<Rightarrow> spec)
        in case entry flat (levelKey tier) of
             Some v \<Rightarrow> Some v
           | None \<Rightarrow> entry flat ''F'')"

text \<open>A table entry that defines a Foundational limit and nothing else.\<close>

definition onlyFoundational :: "jsval \<Rightarrow> bool" where
  "onlyFoundational spec = (case spec of Obj kvs \<Rightarrow> map fst kvs = [''F''] | _ \<Rightarrow> False)"

text \<open>A valid decimal number, read as the whole text being one: an optional sign,
  digits with an optional fraction or a dot followed by digits, and an optional
  exponent with at least one digit; nothing before and nothing after.\<close>

definition stripSign :: "jsstring \<Rightarrow> jsstring" where
  "stripSign t = (if t \<noteq> [] \<and> (hd t = 0x2D \<or> hd t = 0x2B) then tl t else t)"

definition validExponent :: "jsstring \<Rightarrow> bool" where
  "validExponent r =
     (r = [] \<or>
      ((hd r = 0x65 \<or> hd r = 0x45) \<and>
       (let d = stripSign (tl r) in d \<noteq> [] \<and> list_all isDigit d)))"

definition validDecimalNumber :: "jsstring \<Rightarrow> bool" where
  "validDecimalNumber s =
     (let u = stripSign s; ip = takeWhile isDigit u; r1 = dropWhile isDigit u in
      if r1 \<noteq> [] \<and> hd r1 = 0x2E then
        (ip \<noteq> [] \<or> takeWhile isDigit (tl r1) \<noteq> []) \<and>
        validExponent (dropWhile isDigit (tl r1))
      else ip \<noteq> [] \<and> validExponent r1)"

text \<open>What \<open>parseFloat\<close> needs to find a literal: after leading white space and an
  optional sign the text begins with \<open>Infinity\<close>, with a digit, or with a dot and a
  digit.\<close>

definition numericPrefix :: "jsstring \<Rightarrow> bool" where
  "numericPrefix s =
     (let u = stripSign (dropWhile isWhiteSpace s) in
      take 8 u = js ''Infinity'' \<or>
      (u \<noteq> [] \<and> isDigit (hd u)) \<or>
      (u \<noteq> [] \<and> hd u = 0x2E \<and> tl u \<noteq> [] \<and> isDigit (hd (tl u))))"

text \<open>A strictly negative number.\<close>

fun negative :: "number \<Rightarrow> bool" where
  "negative NegInf = True"
| "negative (Fin x) = (x < 0)"
| "negative n = False"

text \<open>A strictly positive finite number as a limit.\<close>

fun positive :: "jsval \<Rightarrow> bool" where
  "positive (Num (Fin x)) = (0 < x)"
| "positive v = False"

text \<open>The bounds of a \<open>{min, max}\<close> pair of finite numbers.\<close>

definition rangeBounds :: "jsval \<Rightarrow> (real \<times> real) option" where
  "rangeBounds l =
     (case l of
        Obj kvs \<Rightarrow>
          (case (field l ''min'', field l ''max'') of
             (Num (Fin mn), Num (Fin mx)) \<Rightarrow> Some (mn, mx)
           | _ \<Rightarrow> None)
      | _ \<Rightarrow> None)"

section \<open>The contribution of one parameter\<close>

text \<open>What one callback run adds for a parameter whose limit resolves without an
  exception: the resolved limit, the verdict, the result row and the chart points.\<close>

definition theLimit :: "form_state \<Rightarrow> param \<Rightarrow> jsval" where
  "theLimit c p = (case getLimit c (p_limits p) of Inl e \<Rightarrow> Null | Inr l \<Rightarrow> l)"

definition theCompliant :: "form_state \<Rightarrow> param \<Rightarrow> bool" where
  "theCompliant c p =
     (if p_isRange p then
        (case rangeCompliant (getInputValue c (p_id p)) (theLimit c p) of
           Inl e \<Rightarrow> True | Inr b \<Rightarrow> b)
      else scalarCompliant (getInputValue c (p_id p)) (theLimit c p))"

definition resultOf :: "form_state \<Rightarrow> param \<Rightarrow> result" where
  "resultOf c p =
     \<lparr>paramName = p_name p,
      r_value = (case getInputValue c (p_id p) of None \<Rightarrow> NA | Some x \<Rightarrow> Value x),
      r_limit = limitDisplay (theLimit c p),
      isCompliant = theCompliant c p,
      r_unit = (if p_isRange p then [] else case p_unit p of None \<Rightarrow> [] | Some t \<Rightarrow> t)\<rparr>"

definition chartOf :: "form_state \<Rightarrow> param \<Rightarrow> chart_point list" where
  "chartOf c p =
     (case getInputValue c (p_id p) of
        None \<Rightarrow> []
      | Some x \<Rightarrow>
          if theLimit c p = Null then []
          else if p_isRange p then
            [\<lparr>c_id = p_id p, c_name = p_name p, c_value = x,
              c_limit = field (theLimit c p) ''max'',
              c_minLimit = Some (field (theLimit c p) ''min''), c_unit = p_unit p\<rparr>]
          else
            [\<lparr>c_id = p_id p, c_name = p_name p, c_value = x, c_limit = theLimit c p,
              c_minLimit = None, c_unit = p_unit p\<rparr>])"

definition appendRow :: "check_state \<Rightarrow> result \<Rightarrow> chart_point list \<Rightarrow> check_state" where
  "appendRow s r pts =
     \<lparr>newResults = newResults s @ [r],
      allCompliant = (allCompliant s \<and> isCompliant r),
      newChartData = newChartData s @ pts\<rparr>"

definition shaped :: "param \<Rightarrow> jsval \<Rightarrow> bool" where
  "shaped p l = (if p_isRange p then rangeBounds l \<noteq> None else positive l)"

text \<open>A spec resolves, in the state \<open>c\<close>, without an exception and to a limit of the
  expected shape.\<close>

definition resolves :: "form_state \<Rightarrow> bool \<Rightarrow> jsval \<Rightarrow> bool" where
  "resolves c r spec =
     (\<exists>l. getLimit c spec = Inr l \<and> (if r then rangeBounds l \<noteq> None else positive l))"

text \<open>The resolver agrees with the specification's wording on a spec.\<close>

definition resolved :: "form_state \<Rightarrow> jsval \<Rightarrow> bool" where
  "resolved c spec \<longleftrightarrow>
     getLimit c spec =
       Inr (case resolveLimit spec (industryType c) (complianceLevel c) of
              None \<Rightarrow> Null | Some l \<Rightarrow> l)"

text \<open>Example states: the initial form, and the initial form with one field filled in
  or one selector changed.\<close>

definition initialForm :: form_state where
  "initialForm =
     \<lparr>params = initialParams, industryType = Textile, complianceLevel = Foundational,
      dischargeType = Direct\<rparr>"

definition cadmiumForm :: form_state where
  "cadmiumForm = initialForm\<lparr>params := initialParams(''cadmium'' \<mapsto> js ''0.02'')\<rparr>"

definition leatherForm :: form_state where
  "leatherForm =
     initialForm\<lparr>params := initialParams(''chromiumVI'' \<mapsto> js ''0.01''),
                 industryType := Leather, complianceLevel := Aspirational\<rparr>"

definition phForm :: form_state where
  "phForm =
     initialForm\<lparr>params := initialParams(''ph'' \<mapsto> js ''5.5''),
                 complianceLevel := Progressive\<rparr>"

definition prefixForm :: form_state where
  "prefixForm = initialForm\<lparr>params := initialParams(''np'' \<mapsto> js ''12abc'')\<rparr>"

definition negativeForm :: form_state where
  "negativeForm = initialForm\<lparr>params := initialParams(''cadmium'' \<mapsto> js ''-1'')\<rparr>"

section \<open>Property reads and the resolver never yield \<open>undefined\<close>\<close>

lemmas table_defs = complianceLimits_def mrsl_limits_def heavyMetals_limits_def
  conventional_limits_def sludge_limits_def field_def

lemmas round_defs = decimalNumber_def roundDouble_def roundHalfEven_def floorLog2_def
  pow2_def bitLength.simps Let_def

lemmas literal_defs = js_def unsignedDecimal_def isDigit_def digitsVal_def digitVal_def
  exponentPart_def

text \<open>The doubles of the table's literals.\<close>

lemma lit_values:
  "lit ''0.001'' = num (1152921504606847 / 1152921504606846976)"
  "lit ''0.005'' = num (5764607523034235 / 1152921504606846976)"
  "lit ''0.01'' = num (5764607523034235 / 576460752303423488)"
  "lit ''0.02'' = num (5764607523034235 / 288230376151711744)"
  "lit ''0.05'' = num (3602879701896397 / 72057594037927936)"
  "lit ''0.1'' = num (3602879701896397 / 36028797018963968)"
  "lit ''0.15'' = num (5404319552844595 / 36028797018963968)"
  "lit ''0.2'' = num (3602879701896397 / 18014398509481984)"
  "lit ''0.4'' = num (3602879701896397 / 9007199254740992)"
  "lit ''0.5'' = num (1 / 2)"
  "lit ''1'' = num 1"
  "lit ''2'' = num 2"
  "lit ''3'' = num 3"
  "lit ''5'' = num 5"
  "lit ''6'' = num 6"
  "lit ''9'' = num 9"
  "lit ''10'' = num 10"
  "lit ''11'' = num 11"
  "lit ''15'' = num 15"
  "lit ''20'' = num 20"
  "lit ''25'' = num 25"
  "lit ''30'' = num 30"
  "lit ''35'' = num 35"
  "lit ''40'' = num 40"
  "lit ''50'' = num 50"
  "lit ''70'' = num 70"
  "lit ''75'' = num 75"
  "lit ''80'' = num 80"
  "lit ''100'' = num 100"
  "lit ''126'' = num 126"
  "lit ''150'' = num 150"
  "lit ''250'' = num 250"
  "lit ''500'' = num 500"
  "lit ''1000'' = num 1000"
  by (simp_all add: lit_def literal_defs round_defs)

lemma lit_defined: "lit s \<noteq> Undefined" "lit s \<noteq> Null"
  by (simp_all add: lit_def)

lemma getProp_Inr: "v \<noteq> Undefined \<Longrightarrow> v \<noteq> Null \<Longrightarrow> getProp v k = Inr (field v k)"
  by (cases v) (simp_all add: field_def split: option.splits)

lemma getLimit_not_Undefined: "getLimit c spec \<noteq> Inr Undefined"
  by (auto simp: getLimit_def andThen_def Let_def split: sum.splits if_splits)

lemma theLimit_eq: "getLimit c (p_limits p) = Inr l \<Longrightarrow> theLimit c p = l"
  by (simp add: theLimit_def)

lemma rangeCompliant_Inr:
  "l \<noteq> Undefined \<Longrightarrow>
   rangeCompliant v l =
     Inr (case v of None \<Rightarrow> True
          | Some x \<Rightarrow> l = Null \<or> (js_ge x (field l ''min'') \<and> js_le x (field l ''max'')))"
  by (cases "l = Null") (auto simp: rangeCompliant_def andThen_def getProp_Inr split: option.splits)

lemma pushRange_Inr:
  "l \<noteq> Undefined \<Longrightarrow>
   pushRange p v l s =
     Inr (case v of None \<Rightarrow> s
          | Some x \<Rightarrow>
              if l = Null then s
              else s\<lparr>newChartData := newChartData s @
                     [\<lparr>c_id = p_id p, c_name = p_name p, c_value = x, c_limit = field l ''max'',
                       c_minLimit = Some (field l ''min''), c_unit = p_unit p\<rparr>]\<rparr>)"
  by (cases "l = Null") (auto simp: pushRange_def andThen_def getProp_Inr split: option.splits)

section \<open>One callback run appends one row\<close>

lemma mrslBody_step:
  assumes "getLimit c (p_limits p) = Inr l" and "\<not> p_isRange p"
  shows "mrslBody c p s = Inr (appendRow s (resultOf c p) (chartOf c p))"
  using assms
  by (simp add: mrslBody_def andThen_def Let_def appendRow_def resultOf_def chartOf_def
        theCompliant_def theLimit_eq addResult_def pushScalar_def split: option.splits)

lemma heavyMetalBody_step:
  assumes "getLimit c (p_limits p) = Inr l" and "\<not> p_isRange p"
  shows "heavyMetalBody c p s = Inr (appendRow s (resultOf c p) (chartOf c p))"
  using assms
  by (simp add: heavyMetalBody_def andThen_def Let_def appendRow_def resultOf_def chartOf_def
        theCompliant_def theLimit_eq addResult_def pushScalar_def split: option.splits)

lemma conventionalBody_step:
  assumes "getLimit c (p_limits p) = Inr l"
  shows "conventionalBody c p s = Inr (appendRow s (resultOf c p) (chartOf c p))"
proof -
  have l: "l \<noteq> Undefined" using assms getLimit_not_Undefined by metis
  show ?thesis
    using assms l
    by (simp add: conventionalBody_def andThen_def Let_def appendRow_def resultOf_def chartOf_def
        theCompliant_def theLimit_eq addResult_def pushScalar_def rangeCompliant_Inr
        pushRange_Inr split: option.splits)
qed

lemma sludgeBody_step:
  assumes "getLimit c (p_limits p) = Inr l"
  shows "sludgeBody c p s = Inr (appendRow s (resultOf c p) [])"
proof -
  have l: "l \<noteq> Undefined" using assms getLimit_not_Undefined by metis
  show ?thesis
    using assms l
    by (simp add: sludgeBody_def andThen_def Let_def appendRow_def resultOf_def
        theCompliant_def theLimit_eq addResult_def rangeCompliant_Inr split: option.splits)
qed

lemma forEach_appendRow:
  assumes "\<And>p s. p \<in> set ps \<Longrightarrow> f p s = Inr (appendRow s (r p) (ch p))"
  shows "forEach f ps s =
           Inr \<lparr>newResults = newResults s @ map r ps,
                allCompliant = (allCompliant s \<and> list_all (\<lambda>p. isCompliant (r p)) ps),
                newChartData = newChartData s @ concat (map ch ps)\<rparr>"
  using assms
proof (induction ps arbitrary: s)
  case Nil
  then show ?case by simp
next
  case (Cons p ps)
  have "f p s = Inr (appendRow s (r p) (ch p))" using Cons.prems by simp
  moreover have "forEach f ps (appendRow s (r p) (ch p)) =
     Inr \<lparr>newResults = newResults (appendRow s (r p) (ch p)) @ map r ps,
          allCompliant = (allCompliant (appendRow s (r p) (ch p))
                           \<and> list_all (\<lambda>p. isCompliant (r p)) ps),
          newChartData = newChartData (appendRow s (r p) (ch p)) @ concat (map ch ps)\<rparr>"
    using Cons.IH Cons.prems by simp
  ultimately show ?case by (simp add: appendRow_def)
qed

section \<open>The resolved limits of the table\<close>

text \<open>The parameter arrays list the entries of the table in the table's order.\<close>

lemma mrsl_specs:
  "map (\<lambda>p. (p_isRange p, p_limits p)) mrslParams = map (\<lambda>(k, v). (False, v)) mrsl_limits"
  by (simp add: mrslParams_def table_defs)

lemma heavyMetal_specs:
  "map (\<lambda>p. (p_isRange p, p_limits p)) heavyMetalParams =
     map (\<lambda>(k, v). (False, v)) heavyMetals_limits"
  by (simp add: heavyMetalParams_def table_defs)

lemma conventional_specs:
  "map (\<lambda>p. (p_isRange p, p_limits p)) conventionalParams =
     map (\<lambda>(k, v). (k = ''ph'', v)) conventional_limits"
  by (simp add: conventionalParams_def table_defs)

lemma sludge_specs:
  "map (\<lambda>p. (p_isRange p, p_limits p)) sludgeParams =
     map (\<lambda>(k, v). (k = ''ph_sludge'', v)) sludge_limits"
  by (simp add: sludgeParams_def table_defs)

lemma shape_via_specs:
  assumes "\<forall>(r, spec)\<in>set (map (\<lambda>p. (p_isRange p, p_limits p)) ps). Q r spec"
  shows "\<forall>p\<in>set ps. Q (p_isRange p) (p_limits p)"
  using assms by auto

lemma mrsl_shape:
  "\<forall>p\<in>set mrslParams. \<not> p_isRange p \<and> onlyFoundational (p_limits p)
      \<and> resolves c (p_isRange p) (p_limits p)"
proof (rule shape_via_specs
    [where Q = "\<lambda>r spec. \<not> r \<and> onlyFoundational spec \<and> resolves c r spec"])
  show "\<forall>(r, spec)\<in>set (map (\<lambda>p. (p_isRange p, p_limits p)) mrslParams).
          \<not> r \<and> onlyFoundational spec \<and> resolves c r spec"
    unfolding mrsl_specs
    by (cases "industryType c"; cases "complianceLevel c")
       (simp_all add: mrsl_limits_def getLimit_def andThen_def onlyFoundational_def resolves_def
          lit_values)
qed

lemma heavyMetal_shape:
  "\<forall>p\<in>set heavyMetalParams. \<not> p_isRange p \<and> \<not> onlyFoundational (p_limits p)
      \<and> resolves c (p_isRange p) (p_limits p)"
proof (rule shape_via_specs
    [where Q = "\<lambda>r spec. \<not> r \<and> \<not> onlyFoundational spec \<and> resolves c r spec"])
  show "\<forall>(r, spec)\<in>set (map (\<lambda>p. (p_isRange p, p_limits p)) heavyMetalParams).
          \<not> r \<and> \<not> onlyFoundational spec \<and> resolves c r spec"
    unfolding heavyMetal_specs
    by (cases "industryType c"; cases "complianceLevel c")
       (simp_all add: heavyMetals_limits_def getLimit_def andThen_def onlyFoundational_def
          resolves_def lit_values)
qed

lemma conventional_shape:
  "\<forall>p\<in>set conventionalParams. \<not> onlyFoundational (p_limits p)
      \<and> resolves c (p_isRange p) (p_limits p)"
proof (rule shape_via_specs
    [where Q = "\<lambda>r spec. \<not> onlyFoundational spec \<and> resolves c r spec"])
  show "\<forall>(r, spec)\<in>set (map (\<lambda>p. (p_isRange p, p_limits p)) conventionalParams).
          \<not> onlyFoundational spec \<and> resolves c r spec"
    unfolding conventional_specs
    by (cases "industryType c"; cases "complianceLevel c")
       (simp_all add: conventional_limits_def getLimit_def andThen_def onlyFoundational_def
          resolves_def rangeBounds_def field_def lit_values)
qed

lemma sludge_shape:
  "\<forall>p\<in>set sludgeParams. onlyFoundational (p_limits p)
      \<and> resolves c (p_isRange p) (p_limits p)"
proof (rule shape_via_specs
    [where Q = "\<lambda>r spec. onlyFoundational spec \<and> resolves c r spec"])
  show "\<forall>(r, spec)\<in>set (map (\<lambda>p. (p_isRange p, p_limits p)) sludgeParams).
          onlyFoundational spec \<and> resolves c r spec"
    unfolding sludge_specs
    by (cases "industryType c"; cases "complianceLevel c")
       (simp_all add: sludge_limits_def getLimit_def andThen_def onlyFoundational_def
          resolves_def rangeBounds_def field_def lit_values)
qed

lemma allParams_shape:
  assumes "p \<in> set allParams"
  shows "\<exists>l. getLimit c (p_limits p) = Inr l \<and> shaped p l"
proof -
  have "resolves c (p_isRange p) (p_limits p)"
    using assms mrsl_shape [of c] heavyMetal_shape [of c] conventional_shape [of c]
      sludge_shape [of c]
    unfolding allParams_def by auto
  then show ?thesis
    unfolding resolves_def shaped_def by simp
qed

lemma mrsl_resolves: "p \<in> set mrslParams \<Longrightarrow> \<exists>l. getLimit c (p_limits p) = Inr l"
  using mrsl_shape [of c] unfolding resolves_def by blast

lemma heavyMetal_resolves: "p \<in> set heavyMetalParams \<Longrightarrow> \<exists>l. getLimit c (p_limits p) = Inr l"
  using heavyMetal_shape [of c] unfolding resolves_def by blast

lemma conventional_resolves:
  "p \<in> set conventionalParams \<Longrightarrow> \<exists>l. getLimit c (p_limits p) = Inr l"
  using conventional_shape [of c] unfolding resolves_def by blast

lemma sludge_resolves: "p \<in> set sludgeParams \<Longrightarrow> \<exists>l. getLimit c (p_limits p) = Inr l"
  using sludge_shape [of c] unfolding resolves_def by blast

lemma scalar_lists: "p \<in> set mrslParams \<union> set heavyMetalParams \<Longrightarrow> \<not> p_isRange p"
  using mrsl_shape heavyMetal_shape by blast

section \<open>The outcome of the check action\<close>

lemma checkCompliance_eq:
  "checkCompliance c =
     Inr \<lparr>newResults = map (resultOf c) allParams,
          allCompliant = list_all (\<lambda>p. isCompliant (resultOf c p)) allParams,
          newChartData =
            concat (map (chartOf c) (mrslParams @ heavyMetalParams @ conventionalParams))\<rparr>"
proof -
  have m: "forEach (mrslBody c) mrslParams s =
      Inr \<lparr>newResults = newResults s @ map (resultOf c) mrslParams,
           allCompliant = (allCompliant s \<and> list_all (\<lambda>p. isCompliant (resultOf c p)) mrslParams),
           newChartData = newChartData s @ concat (map (chartOf c) mrslParams)\<rparr>" for s
    by (rule forEach_appendRow) (use mrsl_resolves [of _ c] scalar_lists in \<open>blast intro: mrslBody_step\<close>)
  have h: "forEach (heavyMetalBody c) heavyMetalParams s =
      Inr \<lparr>newResults = newResults s @ map (resultOf c) heavyMetalParams,
           allCompliant = (allCompliant s
                            \<and> list_all (\<lambda>p. isCompliant (resultOf c p)) heavyMetalParams),
           newChartData = newChartData s @ concat (map (chartOf c) heavyMetalParams)\<rparr>" for s
    by (rule forEach_appendRow) (use heavyMetal_resolves [of _ c] scalar_lists in \<open>blast intro: heavyMetalBody_step\<close>)
  have v: "forEach (conventionalBody c) conventionalParams s =
      Inr \<lparr>newResults = newResults s @ map (resultOf c) conventionalParams,
           allCompliant = (allCompliant s
                            \<and> list_all (\<lambda>p. isCompliant (resultOf c p)) conventionalParams),
           newChartData = newChartData s @ concat (map (chartOf c) conventionalParams)\<rparr>" for s
    by (rule forEach_appendRow)
       (use conventional_resolves [of _ c] in \<open>blast intro: conventionalBody_step\<close>)
  have g: "forEach (sludgeBody c) sludgeParams s =
      Inr \<lparr>newResults = newResults s @ map (resultOf c) sludgeParams,
           allCompliant = (allCompliant s
                            \<and> list_all (\<lambda>p. isCompliant (resultOf c p)) sludgeParams),
           newChartData = newChartData s @ concat (map (\<lambda>p. []) sludgeParams)\<rparr>" for s
    by (rule forEach_appendRow) (use sludge_resolves [of _ c] in \<open>blast intro: sludgeBody_step\<close>)
  show ?thesis
    by (simp add: checkCompliance_def andThen_def m h v g allParams_def)
qed

lemma length_allParams: "length allParams = 45"
  by (simp add: allParams_def mrslParams_def heavyMetalParams_def conventionalParams_def
      sludgeParams_def)

lemma map_of_const: "k \<in> set ks \<Longrightarrow> map_of (map (\<lambda>k. (k, v)) ks) k = Some v"
  by (induction ks) auto

lemma initialParams_ids: "p \<in> set allParams \<Longrightarrow> initialParams (p_id p) = Some []"
proof -
  assume p: "p \<in> set allParams"
  have e: "initialParams = map_of (map (\<lambda>k. (k, [])) (map p_id allParams))"
    by (simp add: initialParams_def allParams_def mrslParams_def heavyMetalParams_def
        conventionalParams_def sludgeParams_def)
  have "p_id p \<in> set (map p_id allParams)"
    using p by simp
  then have "map_of (map (\<lambda>k. (k, [])) (map p_id allParams)) (p_id p) = Some []"
    by (rule map_of_const)
  then show "initialParams (p_id p) = Some []"
    by (simp only: e)
qed

lemma parseFloat_empty: "parseFloat [] = NaN"
  by (simp add: parseFloat_def unsignedDecimal_def js_def)

lemma initial_values: "p \<in> set allParams \<Longrightarrow> getInputValue initialForm (p_id p) = None"
  by (simp add: getInputValue_def initialForm_def isNaN_def initialParams_ids parseFloat_empty)

lemma theCompliant_no_value: "getInputValue c (p_id p) = None \<Longrightarrow> theCompliant c p"
  by (simp add: theCompliant_def scalarCompliant_def rangeCompliant_def)

section \<open>Auxiliary facts about single rows\<close>

lemmas parse_defs = parseFloat_def isWhiteSpace_def isNaN_def literal_defs round_defs

lemmas param_defs = allParams_def mrslParams_def heavyMetalParams_def conventionalParams_def
  sludgeParams_def

lemma row_nth:
  "i < length allParams \<Longrightarrow>
   checkCompliance c = Inr out \<Longrightarrow> newResults out ! i = resultOf c (allParams ! i)"
  by (auto simp: checkCompliance_eq)

lemma positive_num: "positive l \<Longrightarrow> \<exists>x. 0 < x \<and> l = num x"
  by (cases l rule: positive.cases) simp_all

lemma rangeBounds_fields:
  "rangeBounds l \<noteq> None \<Longrightarrow> \<exists>mn mx. field l ''min'' = num mn \<and> field l ''max'' = num mx"
  by (auto simp: rangeBounds_def split: jsval.splits number.splits prod.splits)

lemma shaped_defined: "shaped p l \<Longrightarrow> l \<noteq> Null \<and> l \<noteq> Undefined"
  by (cases l) (auto simp: shaped_def rangeBounds_def split: if_splits)

lemma theCompliant_scalar:
  assumes "\<not> p_isRange p" and "getLimit c (p_limits p) = Inr l" and "l \<noteq> Null"
    and "getInputValue c (p_id p) = Some v"
  shows "theCompliant c p = num_le v (ToNumber l)"
  using assms by (simp add: theCompliant_def theLimit_eq scalarCompliant_def js_le_def)

lemma theCompliant_range:
  assumes "p_isRange p" and "getLimit c (p_limits p) = Inr l" and "l \<noteq> Null"
    and "getInputValue c (p_id p) = Some v"
  shows "theCompliant c p =
           (num_le (ToNumber (field l ''min'')) v \<and> num_le v (ToNumber (field l ''max'')))"
proof -
  have "l \<noteq> Undefined" using assms(2) getLimit_not_Undefined by metis
  then show ?thesis
    using assms
    by (simp add: theCompliant_def theLimit_eq rangeCompliant_Inr js_le_def js_ge_def)
qed

lemma theCompliant_no_limit: "getLimit c (p_limits p) = Inr Null \<Longrightarrow> theCompliant c p"
  by (simp add: theCompliant_def theLimit_eq scalarCompliant_def rangeCompliant_def
      split: option.splits)

lemma empty_input_value: "params c k = Some [] \<Longrightarrow> getInputValue c k = None"
  by (simp add: getInputValue_def parseFloat_empty isNaN_def)

lemma np_param:
  "allParams ! 0 =
     \<lparr>p_id = ''np'', p_name = js ''Nonylphenol (NP)'',
      p_limits = field (field complianceLimits ''mrsl'') ''np'',
      p_unit = Some ([0xB5] @ js ''g/L''), p_isRange = False\<rparr>"
  by (simp add: param_defs)

lemma np_limits: "p_limits (allParams ! 0) = onlyF (lit ''5'')"
  by (simp add: np_param table_defs)

lemma cadmium_param:
  "allParams ! 18 =
     \<lparr>p_id = ''cadmium'', p_name = js ''Cadmium'',
      p_limits = field (field complianceLimits ''heavyMetals'') ''cadmium'',
      p_unit = Some (js ''mg/L''), p_isRange = False\<rparr>"
  by (simp add: param_defs)

lemma cadmium_row:
  "18 < length allParams" "p_id (allParams ! 18) = ''cadmium''" "\<not> p_isRange (allParams ! 18)"
  "p_limits (allParams ! 18) =
     byIndustry (tiers (lit ''0.01'') (lit ''0.005'') (lit ''0.001''))
       (tiers (lit ''0.01'') (lit ''0.005'') (lit ''0.001''))"
  by (simp_all add: cadmium_param length_allParams table_defs)

lemma chromiumVI_param:
  "allParams ! 19 =
     \<lparr>p_id = ''chromiumVI'', p_name = js ''Chromium (VI)'',
      p_limits = field (field complianceLimits ''heavyMetals'') ''chromiumVI'',
      p_unit = Some (js ''mg/L''), p_isRange = False\<rparr>"
  by (simp add: param_defs)

lemma chromiumVI_limits:
  "p_limits (allParams ! 19) =
     byIndustry (tiers (lit ''0.05'') (lit ''0.01'') (lit ''0.005'')) (tiers (lit ''0.15'') (lit ''0.05'') (lit ''0.01''))"
  by (simp add: chromiumVI_param table_defs)

lemma ph_param:
  "allParams ! 26 =
     \<lparr>p_id = ''ph'', p_name = js ''pH'',
      p_limits = field (field complianceLimits ''conventional'') ''ph'',
      p_unit = None, p_isRange = True\<rparr>"
  by (simp add: param_defs)

lemma ph_row:
  "26 < length allParams" "p_id (allParams ! 26) = ''ph''" "p_isRange (allParams ! 26)"
  "p_limits (allParams ! 26) =
     byIndustry (tiers (minMax (lit ''6'') (lit ''9'')) (minMax (lit ''6'') (lit ''9'')) (minMax (lit ''6'') (lit ''9'')))
       (tiers (minMax (lit ''6'') (lit ''9'')) (minMax (lit ''6'') (lit ''9'')) (minMax (lit ''6'') (lit ''9'')))"
  by (simp_all add: ph_param length_allParams table_defs)

lemma cadmiumForm_value:
  "getInputValue cadmiumForm ''cadmium'' = Some (Fin (5764607523034235 / 288230376151711744))"
  by (simp add: getInputValue_def cadmiumForm_def initialForm_def parse_defs)

lemma cadmiumForm_limit:
  "getLimit cadmiumForm (p_limits (allParams ! 18)) = Inr (num (5764607523034235 / 576460752303423488))"
  by (simp add: cadmium_row getLimit_def andThen_def cadmiumForm_def initialForm_def lit_values)

section \<open>The limit resolver\<close>

lemma mrsl_resolved: "\<forall>p\<in>set mrslParams. resolved c (p_limits p)"
proof (rule shape_via_specs [where Q = "\<lambda>r spec. resolved c spec"])
  show "\<forall>(r, spec)\<in>set (map (\<lambda>p. (p_isRange p, p_limits p)) mrslParams). resolved c spec"
    unfolding mrsl_specs
    by (cases "industryType c"; cases "complianceLevel c")
       (simp_all add: mrsl_limits_def getLimit_def andThen_def resolved_def resolveLimit_def
          entry_def lit_defined)
qed

lemma heavyMetal_resolved: "\<forall>p\<in>set heavyMetalParams. resolved c (p_limits p)"
proof (rule shape_via_specs [where Q = "\<lambda>r spec. resolved c spec"])
  show "\<forall>(r, spec)\<in>set (map (\<lambda>p. (p_isRange p, p_limits p)) heavyMetalParams). resolved c spec"
    unfolding heavyMetal_specs
    by (cases "industryType c"; cases "complianceLevel c")
       (simp_all add: heavyMetals_limits_def getLimit_def andThen_def resolved_def resolveLimit_def
          entry_def lit_defined)
qed

lemma conventional_resolved: "\<forall>p\<in>set conventionalParams. resolved c (p_limits p)"
proof (rule shape_via_specs [where Q = "\<lambda>r spec. resolved c spec"])
  show "\<forall>(r, spec)\<in>set (map (\<lambda>p. (p_isRange p, p_limits p)) conventionalParams). resolved c spec"
    unfolding conventional_specs
    by (cases "industryType c"; cases "complianceLevel c")
       (simp_all add: conventional_limits_def getLimit_def andThen_def resolved_def resolveLimit_def
          entry_def lit_defined)
qed

lemma sludge_resolved: "\<forall>p\<in>set sludgeParams. resolved c (p_limits p)"
proof (rule shape_via_specs [where Q = "\<lambda>r spec. resolved c spec"])
  show "\<forall>(r, spec)\<in>set (map (\<lambda>p. (p_isRange p, p_limits p)) sludgeParams). resolved c spec"
    unfolding sludge_specs
    by (cases "industryType c"; cases "complianceLevel c")
       (simp_all add: sludge_limits_def getLimit_def andThen_def resolved_def resolveLimit_def
          entry_def lit_defined)
qed

text \<open>
  C1. On an absent spec and on every spec of the table, for both industries and all
  three compliance levels, \<open>getLimit\<close> returns what the specification's resolver
  returns: nothing (\<open>null\<close>) for an absent spec; otherwise, in the entry of the industry
  when the spec has one and in the spec itself when not, the entry of the requested
  level, else the Foundational entry, else nothing.
\<close>

theorem getLimit_follows_resolveLimit:
  assumes "spec = Undefined \<or> spec = Null \<or> spec \<in> p_limits ` set allParams"
  shows "getLimit c spec =
           Inr (case resolveLimit spec (industryType c) (complianceLevel c) of
                  None \<Rightarrow> Null | Some l \<Rightarrow> l)"
proof -
  have "resolved c spec" if "spec \<in> p_limits ` set allParams"
    using that mrsl_resolved [of c] heavyMetal_resolved [of c] conventional_resolved [of c]
      sludge_resolved [of c]
    unfolding allParams_def by auto
  moreover have "resolved c Undefined" "resolved c Null"
    by (simp_all add: resolved_def getLimit_def resolveLimit_def)
  ultimately show ?thesis
    using assms unfolding resolved_def by blast
qed

theorem getLimit_follows_resolveLimit_witness:
  "getLimit leatherForm (p_limits (allParams ! 19)) =
     Inr (num (5764607523034235 / 576460752303423488))"
proof -
  have "allParams ! 19 \<in> set allParams"
    by (rule nth_mem) (simp add: length_allParams)
  then have "p_limits (allParams ! 19) \<in> p_limits ` set allParams"
    by (rule imageI)
  then have "getLimit leatherForm (p_limits (allParams ! 19)) =
      Inr (case resolveLimit (p_limits (allParams ! 19)) (industryType leatherForm)
                  (complianceLevel leatherForm) of
             None \<Rightarrow> Null | Some l \<Rightarrow> l)"
    using getLimit_follows_resolveLimit [of "p_limits (allParams ! 19)" leatherForm] by blast
  then show ?thesis
    by (simp add: chromiumVI_limits resolveLimit_def entry_def leatherForm_def initialForm_def
        lit_values)
qed

section \<open>The classification of one parameter\<close>

text \<open>
  C2. For every parameter with a parsed value and a resolved limit: a range parameter has
  a limit with numeric \<open>min\<close> and \<open>max\<close> and its row is compliant exactly when
  \<open>min <= value <= max\<close>; any other parameter has a numeric limit and its row is
  compliant exactly when \<open>value <= limit\<close>, so a value equal to the limit passes.
\<close>

theorem row_compliant_iff_within_limit:
  "\<exists>out. checkCompliance c = Inr out \<and> length (newResults out) = length allParams \<and>
     (\<forall>i<length allParams. \<forall>v l.
        getInputValue c (p_id (allParams ! i)) = Some v \<and>
        getLimit c (p_limits (allParams ! i)) = Inr l \<and> l \<noteq> Null \<longrightarrow>
        (if p_isRange (allParams ! i)
         then \<exists>mn mx. field l ''min'' = num mn \<and> field l ''max'' = num mx \<and>
                (isCompliant (newResults out ! i) \<longleftrightarrow> num_le (Fin mn) v \<and> num_le v (Fin mx))
         else \<exists>x. l = num x \<and> (isCompliant (newResults out ! i) \<longleftrightarrow> num_le v (Fin x))))"
proof -
  obtain out where out: "checkCompliance c = Inr out"
    by (simp add: checkCompliance_eq)
  have len: "length (newResults out) = length allParams"
    using out by (auto simp: checkCompliance_eq)
  have "if p_isRange (allParams ! i)
         then \<exists>mn mx. field l ''min'' = num mn \<and> field l ''max'' = num mx \<and>
                (isCompliant (newResults out ! i) \<longleftrightarrow> num_le (Fin mn) v \<and> num_le v (Fin mx))
         else \<exists>x. l = num x \<and> (isCompliant (newResults out ! i) \<longleftrightarrow> num_le v (Fin x))"
    if i: "i < length allParams" and v: "getInputValue c (p_id (allParams ! i)) = Some v"
      and l: "getLimit c (p_limits (allParams ! i)) = Inr l" and n: "l \<noteq> Null" for i v l
  proof -
    let ?p = "allParams ! i"
    have row: "isCompliant (newResults out ! i) = theCompliant c ?p"
      using row_nth [OF i out] by (simp add: resultOf_def)
    have sh: "shaped ?p l"
      using allParams_shape [of ?p c] i l by auto
    show ?thesis
    proof (cases "p_isRange ?p")
      case True
      then obtain mn mx where b: "field l ''min'' = num mn" "field l ''max'' = num mx"
        using sh rangeBounds_fields unfolding shaped_def by fastforce
      show ?thesis
        using True b row theCompliant_range [OF True l n v] by simp
    next
      case False
      then obtain x where x: "l = num x"
        using sh positive_num unfolding shaped_def by fastforce
      show ?thesis
        using False x row theCompliant_scalar [OF False l n v] by simp
    qed
  qed
  then show ?thesis using out len by blast
qed

theorem row_compliant_iff_within_limit_witness:
  "\<exists>out. checkCompliance cadmiumForm = Inr out \<and> \<not> isCompliant (newResults out ! 18)"
proof -
  obtain out where out: "checkCompliance cadmiumForm = Inr out"
    and h: "\<forall>i<length allParams. \<forall>v l.
        getInputValue cadmiumForm (p_id (allParams ! i)) = Some v \<and>
        getLimit cadmiumForm (p_limits (allParams ! i)) = Inr l \<and> l \<noteq> Null \<longrightarrow>
        (if p_isRange (allParams ! i)
         then \<exists>mn mx. field l ''min'' = num mn \<and> field l ''max'' = num mx \<and>
                (isCompliant (newResults out ! i) \<longleftrightarrow> num_le (Fin mn) v \<and> num_le v (Fin mx))
         else \<exists>x. l = num x \<and> (isCompliant (newResults out ! i) \<longleftrightarrow> num_le v (Fin x)))"
    using row_compliant_iff_within_limit [of cadmiumForm] by blast
  have "\<exists>x. num (5764607523034235 / 576460752303423488) = num x \<and>
      (isCompliant (newResults out ! 18) \<longleftrightarrow>
         num_le (Fin (5764607523034235 / 288230376151711744)) (Fin x))"
    using h [rule_format, of 18 "Fin (5764607523034235 / 288230376151711744)"
        "num (5764607523034235 / 576460752303423488)"] cadmium_row(1,3)
      cadmiumForm_value cadmiumForm_limit
    by (simp add: cadmium_row(2))
  then have "\<not> isCompliant (newResults out ! 18)" by auto
  then show ?thesis using out by blast
qed

text \<open>
  C3. The row_compliant_iff_within_limit is \<open>true\<close> as soon as the value or the limit is absent, and in
  the check action the row of every parameter whose parsed value is absent, whose
  resolved limit is absent, or whose input is empty, is compliant.
\<close>

theorem row_compliant_when_absent:
  "(\<forall>v l. scalarCompliant None l \<and> scalarCompliant v Null \<and>
          rangeCompliant None l = Inr True \<and> rangeCompliant v Null = Inr True) \<and>
   (\<exists>out. checkCompliance c = Inr out \<and> length (newResults out) = length allParams \<and>
     (\<forall>i<length allParams.
        (getInputValue c (p_id (allParams ! i)) = None \<or>
         getLimit c (p_limits (allParams ! i)) = Inr Null \<or>
         params c (p_id (allParams ! i)) = Some []) \<longrightarrow>
        isCompliant (newResults out ! i)))"
proof -
  have a: "\<forall>v l. scalarCompliant None l \<and> scalarCompliant v Null \<and>
          rangeCompliant None l = Inr True \<and> rangeCompliant v Null = Inr True"
    by (simp add: scalarCompliant_def rangeCompliant_def split: option.splits)
  obtain out where out: "checkCompliance c = Inr out"
    by (simp add: checkCompliance_eq)
  have len: "length (newResults out) = length allParams"
    using out by (auto simp: checkCompliance_eq)
  have "isCompliant (newResults out ! i)"
    if i: "i < length allParams"
      and h: "getInputValue c (p_id (allParams ! i)) = None \<or>
         getLimit c (p_limits (allParams ! i)) = Inr Null \<or>
         params c (p_id (allParams ! i)) = Some []" for i
  proof -
    have "theCompliant c (allParams ! i)"
      using h theCompliant_no_value theCompliant_no_limit empty_input_value by blast
    then show ?thesis
      using row_nth [OF i out] by (simp add: resultOf_def)
  qed
  then show ?thesis using a out len by blast
qed

theorem row_compliant_when_absent_witness:
  "\<exists>out. checkCompliance cadmiumForm = Inr out \<and> isCompliant (newResults out ! 0)"
proof -
  obtain out where out: "checkCompliance cadmiumForm = Inr out"
    and h: "\<forall>i<length allParams.
        (getInputValue cadmiumForm (p_id (allParams ! i)) = None \<or>
         getLimit cadmiumForm (p_limits (allParams ! i)) = Inr Null \<or>
         params cadmiumForm (p_id (allParams ! i)) = Some []) \<longrightarrow>
        isCompliant (newResults out ! i)"
    using row_compliant_when_absent [of cadmiumForm] by blast
  have "0 < length allParams" by (simp add: length_allParams)
  moreover have "params cadmiumForm (p_id (allParams ! 0)) = Some []"
    by (simp add: np_param cadmiumForm_def initialForm_def initialParams_def)
  ultimately have "isCompliant (newResults out ! 0)" using h by blast
  then show ?thesis using out by blast
qed

section \<open>The Foundational fallback\<close>

lemma onlyFoundational_shape: "onlyFoundational spec \<Longrightarrow> \<exists>v. spec = onlyF v"
  by (cases spec) (auto simp: onlyFoundational_def)

lemma getLimit_onlyF: "getLimit c (onlyF v) = Inr (if v = Undefined then Null else v)"
  by (cases "industryType c"; cases "complianceLevel c") (simp_all add: getLimit_def andThen_def)

text \<open>
  C4. A parameter whose table entry defines a Foundational limit and nothing else
  resolves to that limit for both industries and all three compliance levels; every
  MRSL parameter and every sludge parameter has such an entry.
\<close>

theorem only_foundational_resolves_to_F:
  "(\<forall>p\<in>set allParams. onlyFoundational (p_limits p) \<longrightarrow>
      (\<exists>v. p_limits p = onlyF v \<and> v \<noteq> Undefined \<and> v \<noteq> Null \<and>
           getLimit c (p_limits p) = Inr v)) \<and>
   (\<forall>p\<in>set (mrslParams @ sludgeParams). onlyFoundational (p_limits p))"
proof -
  have "\<exists>v. p_limits p = onlyF v \<and> v \<noteq> Undefined \<and> v \<noteq> Null \<and> getLimit c (p_limits p) = Inr v"
    if p: "p \<in> set allParams" and f: "onlyFoundational (p_limits p)" for p
  proof -
    obtain v where v: "p_limits p = onlyF v"
      using onlyFoundational_shape [OF f] by blast
    obtain l where l: "getLimit c (p_limits p) = Inr l" "shaped p l"
      using allParams_shape [OF p] by blast
    have "l = (if v = Undefined then Null else v)"
      using l(1) getLimit_onlyF [of c v] v by simp
    then have "v \<noteq> Undefined \<and> v \<noteq> Null \<and> l = v"
      using shaped_defined [OF l(2)] by (auto split: if_splits)
    then show ?thesis using v l(1) by blast
  qed
  moreover have "\<forall>p\<in>set (mrslParams @ sludgeParams). onlyFoundational (p_limits p)"
    using mrsl_shape [of c] sludge_shape [of c] by auto
  ultimately show ?thesis by blast
qed

theorem only_foundational_resolves_to_F_witness:
  "getLimit leatherForm (p_limits (allParams ! 0)) = Inr (num 5)"
proof -
  have "allParams ! 0 \<in> set allParams"
    by (rule nth_mem) (simp add: length_allParams)
  moreover have "onlyFoundational (p_limits (allParams ! 0))"
    by (simp add: np_limits onlyFoundational_def)
  ultimately have "\<exists>v. p_limits (allParams ! 0) = onlyF v \<and> v \<noteq> Undefined \<and> v \<noteq> Null \<and>
      getLimit leatherForm (p_limits (allParams ! 0)) = Inr v"
    using only_foundational_resolves_to_F [of leatherForm] by blast
  then show ?thesis by (simp add: np_limits lit_values)
qed

section \<open>The value parser\<close>

lemma digit_not_dot: "\<not> isDigit 0x2E"
  by (simp add: isDigit_def)

lemma unsignedDecimal_None:
  "unsignedDecimal u = None \<longleftrightarrow>
     \<not> ((u \<noteq> [] \<and> isDigit (hd u)) \<or>
        (u \<noteq> [] \<and> hd u = 0x2E \<and> tl u \<noteq> [] \<and> isDigit (hd (tl u))))"
proof (cases u)
  case Nil
  then show ?thesis by (simp add: unsignedDecimal_def)
next
  case (Cons a r)
  show ?thesis
  proof (cases "isDigit a")
    case True
    then show ?thesis using Cons by (simp add: unsignedDecimal_def Let_def)
  next
    case False
    then show ?thesis
      using Cons digit_not_dot
      by (cases r) (auto simp: unsignedDecimal_def Let_def takeWhile_eq_Nil_iff)
  qed
qed

lemma parseFloat_NaN: "parseFloat s = NaN \<longleftrightarrow> \<not> numericPrefix s"
proof -
  define u where "u = stripSign (dropWhile isWhiteSpace s)"
  define neg where "neg \<longleftrightarrow> dropWhile isWhiteSpace s \<noteq> [] \<and> hd (dropWhile isWhiteSpace s) = 0x2D"
  have pf: "parseFloat s =
      (if take 8 u = js ''Infinity'' then (if neg then NegInf else PosInf)
       else (case unsignedDecimal u of
               None \<Rightarrow> NaN
             | Some (m, k) \<Rightarrow> if neg then negate (decimalNumber m k) else decimalNumber m k))"
    unfolding parseFloat_def u_def neg_def stripSign_def Let_def by (rule refl)
  have dn: "decimalNumber m k \<noteq> NaN \<and> negate (decimalNumber m k) \<noteq> NaN" for m k
    by (simp add: decimalNumber_def roundDouble_def Let_def)
  have p1: "parseFloat s = NaN \<longleftrightarrow> take 8 u \<noteq> js ''Infinity'' \<and> unsignedDecimal u = None"
    unfolding pf using dn by (cases "unsignedDecimal u") auto
  have p2: "numericPrefix s \<longleftrightarrow>
      take 8 u = js ''Infinity'' \<or> (u \<noteq> [] \<and> isDigit (hd u)) \<or>
      (u \<noteq> [] \<and> hd u = 0x2E \<and> tl u \<noteq> [] \<and> isDigit (hd (tl u)))"
    unfolding numericPrefix_def u_def Let_def by (rule refl)
  show ?thesis
    unfolding p1 p2 unsignedDecimal_None by auto
qed

lemma digit_not_space: "isDigit a \<Longrightarrow> \<not> isWhiteSpace a"
  by (auto simp: isDigit_def isWhiteSpace_def word_le_nat_alt)

lemma sign_not_space: "\<not> isWhiteSpace 0x2D" "\<not> isWhiteSpace 0x2B" "\<not> isWhiteSpace 0x2E"
  by (simp_all add: isWhiteSpace_def)

lemma valid_first:
  assumes "validDecimalNumber s"
  shows "s \<noteq> [] \<and> \<not> isWhiteSpace (hd s) \<and>
         ((stripSign s \<noteq> [] \<and> isDigit (hd (stripSign s))) \<or>
          (stripSign s \<noteq> [] \<and> hd (stripSign s) = 0x2E \<and> tl (stripSign s) \<noteq> [] \<and>
           isDigit (hd (tl (stripSign s)))))"
proof -
  define u where "u = stripSign s"
  have v: "if dropWhile isDigit u \<noteq> [] \<and> hd (dropWhile isDigit u) = 0x2E
           then takeWhile isDigit u \<noteq> [] \<or> takeWhile isDigit (tl (dropWhile isDigit u)) \<noteq> []
           else takeWhile isDigit u \<noteq> []"
    using assms unfolding validDecimalNumber_def u_def Let_def by (auto split: if_splits)
  have lit: "(u \<noteq> [] \<and> isDigit (hd u)) \<or>
          (u \<noteq> [] \<and> hd u = 0x2E \<and> tl u \<noteq> [] \<and> isDigit (hd (tl u)))"
  proof (cases "takeWhile isDigit u = []")
    case False
    then show ?thesis by (simp add: takeWhile_eq_Nil_iff)
  next
    case True
    then have d: "dropWhile isDigit u = u"
      by (cases u) (auto split: if_splits)
    have "u \<noteq> [] \<and> hd u = 0x2E \<and> takeWhile isDigit (tl u) \<noteq> []"
      using v True unfolding d by (auto split: if_splits)
    then show ?thesis by (simp add: takeWhile_eq_Nil_iff)
  qed
  have "s \<noteq> [] \<and> \<not> isWhiteSpace (hd s)"
  proof (cases "s \<noteq> [] \<and> (hd s = 0x2D \<or> hd s = 0x2B)")
    case True
    then show ?thesis using sign_not_space by auto
  next
    case False
    then have "u = s" unfolding u_def stripSign_def by auto
    then show ?thesis using lit digit_not_space sign_not_space by auto
  qed
  then show ?thesis using lit unfolding u_def by blast
qed

lemma valid_numericPrefix: "validDecimalNumber s \<Longrightarrow> numericPrefix s"
proof -
  assume "validDecimalNumber s"
  then have f: "s \<noteq> [] \<and> \<not> isWhiteSpace (hd s)"
    and l: "(stripSign s \<noteq> [] \<and> isDigit (hd (stripSign s))) \<or>
          (stripSign s \<noteq> [] \<and> hd (stripSign s) = 0x2E \<and> tl (stripSign s) \<noteq> [] \<and>
           isDigit (hd (tl (stripSign s))))"
    using valid_first by blast+
  have "dropWhile isWhiteSpace s = s"
    using f by (cases s) simp_all
  then show "numericPrefix s"
    using l unfolding numericPrefix_def Let_def by simp
qed

lemma empty_no_prefix: "\<not> numericPrefix []"
  by (simp add: numericPrefix_def stripSign_def js_def)

text \<open>When \<open>getInputValue\<close> returns absent, and that it returns a number for every
  valid decimal number.\<close>

lemma getInputValue_absent_iff:
  "(getInputValue c k = None \<longleftrightarrow>
      \<not> numericPrefix (case params c k of None \<Rightarrow> js ''undefined'' | Some s \<Rightarrow> s)) \<and>
   (params c k = Some [] \<longrightarrow> getInputValue c k = None) \<and>
   (\<forall>s. params c k = Some s \<and> validDecimalNumber s \<longrightarrow> getInputValue c k \<noteq> None)"
proof -
  have a: "getInputValue c k = None \<longleftrightarrow>
      \<not> numericPrefix (case params c k of None \<Rightarrow> js ''undefined'' | Some s \<Rightarrow> s)"
    using parseFloat_NaN by (simp add: getInputValue_def isNaN_def Let_def)
  have b: "params c k = Some [] \<longrightarrow> getInputValue c k = None"
    unfolding a using empty_no_prefix by simp
  have d: "\<forall>s. params c k = Some s \<and> validDecimalNumber s \<longrightarrow> getInputValue c k \<noteq> None"
    unfolding a using valid_numericPrefix by simp
  show ?thesis using a b d by blast
qed

text \<open>Numbers too large for a double parse to \<open>Infinity\<close>, numbers too small to
  \<open>0\<close>.\<close>

lemma parseFloat_overflow: "parseFloat (js ''1e400'') = PosInf"
  by (simp add: parse_defs)

lemma parseFloat_underflow: "parseFloat (js ''1e-400'') = Fin 0"
  by (simp add: parse_defs)

text \<open>Two texts with the same nearest double parse to the same number.\<close>

lemma parseFloat_rounds: "parseFloat (js ''0.050000000000000001'') = parseFloat (js ''0.05'')"
  by (simp add: parse_defs)

text \<open>
  C5. The helper is meant to tell whether the text of a field is a valid number. The
  text \<open>12abc\<close> is not a valid decimal number, and \<open>getInputValue\<close> returns the number
  12 for it: \<open>parseFloat\<close> reads the longest numeric prefix and ignores the rest of the
  text.
\<close>

theorem getInputValue_accepts_trailing_text:
  "params prefixForm ''np'' = Some (js ''12abc'') \<and>
   \<not> validDecimalNumber (js ''12abc'') \<and>
   getInputValue prefixForm ''np'' = Some (Fin 12)"
  by (simp add: prefixForm_def initialForm_def getInputValue_def parse_defs
      validDecimalNumber_def validExponent_def stripSign_def)

theorem getInputValue_accepts_trailing_text_witness:
  "getInputValue prefixForm ''np'' = Some (Fin 12)"
  using getInputValue_accepts_trailing_text by blast

section \<open>The overall flag\<close>

lemma row_flag:
  assumes i: "i < length allParams"
  shows "theCompliant c (allParams ! i) \<longleftrightarrow>
          (\<forall>v l. getInputValue c (p_id (allParams ! i)) = Some v \<and>
                 getLimit c (p_limits (allParams ! i)) = Inr l \<and> l \<noteq> Null \<longrightarrow>
                 (if p_isRange (allParams ! i)
                  then \<exists>mn mx. field l ''min'' = num mn \<and> field l ''max'' = num mx \<and>
                         num_le (Fin mn) v \<and> num_le v (Fin mx)
                  else \<exists>x. l = num x \<and> num_le v (Fin x)))"
proof -
  let ?p = "allParams ! i"
  obtain l where l: "getLimit c (p_limits ?p) = Inr l" and sh: "shaped ?p l"
    using allParams_shape [of ?p c] i by auto
  have n: "l \<noteq> Null" using shaped_defined [OF sh] by simp
  show ?thesis
  proof (cases "getInputValue c (p_id ?p)")
    case None
    then show ?thesis using theCompliant_no_value [of c ?p] by simp
  next
    case (Some v)
    show ?thesis
    proof (cases "p_isRange ?p")
      case True
      obtain mn mx where b: "field l ''min'' = num mn" "field l ''max'' = num mx"
        using sh True rangeBounds_fields unfolding shaped_def by fastforce
      have "theCompliant c ?p \<longleftrightarrow> num_le (Fin mn) v \<and> num_le v (Fin mx)"
        using theCompliant_range [OF True l n Some] b by simp
      then show ?thesis using True Some l n b by auto
    next
      case False
      obtain x where x: "l = num x"
        using sh False positive_num unfolding shaped_def by fastforce
      have "theCompliant c ?p \<longleftrightarrow> num_le v (Fin x)"
        using theCompliant_scalar [OF False l n Some] x by simp
      then show ?thesis using False Some l n x by auto
    qed
  qed
qed

text \<open>
  C6. For every state of the form, one check action returns one row per parameter, in
  the order of the parameters, and the flag of a row is false exactly when the
  parameter has a parsed value and a resolved limit and the value is outside the limit.
  The overall flag is the conjunction of the flags of these rows: it is false exactly
  when some row is non-compliant, and it is true when no parameter has a measured
  value (for example when every input is empty).
\<close>

theorem allCompliant_is_conjunction:
  "\<exists>out. checkCompliance c = Inr out \<and>
     length (newResults out) = length allParams \<and>
     map paramName (newResults out) = map p_name allParams \<and>
     (\<forall>i<length allParams.
        isCompliant (newResults out ! i) \<longleftrightarrow>
          (\<forall>v l. getInputValue c (p_id (allParams ! i)) = Some v \<and>
                 getLimit c (p_limits (allParams ! i)) = Inr l \<and> l \<noteq> Null \<longrightarrow>
                 (if p_isRange (allParams ! i)
                  then \<exists>mn mx. field l ''min'' = num mn \<and> field l ''max'' = num mx \<and>
                         num_le (Fin mn) v \<and> num_le v (Fin mx)
                  else \<exists>x. l = num x \<and> num_le v (Fin x)))) \<and>
     allCompliant out = list_all isCompliant (newResults out) \<and>
     (allCompliant out \<longleftrightarrow> (\<forall>i<length allParams. isCompliant (newResults out ! i))) \<and>
     (\<not> allCompliant out \<longleftrightarrow> (\<exists>r\<in>set (newResults out). \<not> isCompliant r)) \<and>
     ((\<forall>p\<in>set allParams. getInputValue c (p_id p) = None) \<longrightarrow> allCompliant out)"
proof -
  obtain out where out: "checkCompliance c = Inr out"
    by (simp add: checkCompliance_eq)
  have rows: "newResults out = map (resultOf c) allParams"
    and flag: "allCompliant out = list_all (\<lambda>p. isCompliant (resultOf c p)) allParams"
    using out by (auto simp: checkCompliance_eq)
  have len: "length (newResults out) = length allParams"
    by (simp add: rows)
  have names: "map paramName (newResults out) = map p_name allParams"
    by (simp add: rows resultOf_def)
  have row: "isCompliant (newResults out ! i) = theCompliant c (allParams ! i)"
    if "i < length allParams" for i
    using that by (simp add: rows resultOf_def)
  have a: "allCompliant out = list_all isCompliant (newResults out)"
    by (simp add: rows flag list_all_iff)
  have b: "allCompliant out \<longleftrightarrow> (\<forall>i<length allParams. isCompliant (newResults out ! i))"
    unfolding a list_all_length len by (rule refl)
  have d: "\<not> allCompliant out \<longleftrightarrow> (\<exists>r\<in>set (newResults out). \<not> isCompliant r)"
    unfolding a list_all_iff by blast
  have e: "(\<forall>p\<in>set allParams. getInputValue c (p_id p) = None) \<longrightarrow> allCompliant out"
    by (simp add: flag list_all_iff resultOf_def theCompliant_no_value)
  show ?thesis
    using out len names row row_flag [of _ c] a b d e by (intro exI [of _ out]) simp
qed

theorem allCompliant_is_conjunction_witness:
  "(\<exists>out. checkCompliance cadmiumForm = Inr out \<and>
          \<not> isCompliant (newResults out ! 18) \<and> \<not> allCompliant out) \<and>
   (\<exists>out. checkCompliance initialForm = Inr out \<and> allCompliant out)"
proof -
  obtain out where out: "checkCompliance cadmiumForm = Inr out"
    and r: "\<forall>i<length allParams.
        isCompliant (newResults out ! i) \<longleftrightarrow>
          (\<forall>v l. getInputValue cadmiumForm (p_id (allParams ! i)) = Some v \<and>
                 getLimit cadmiumForm (p_limits (allParams ! i)) = Inr l \<and> l \<noteq> Null \<longrightarrow>
                 (if p_isRange (allParams ! i)
                  then \<exists>mn mx. field l ''min'' = num mn \<and> field l ''max'' = num mx \<and>
                         num_le (Fin mn) v \<and> num_le v (Fin mx)
                  else \<exists>x. l = num x \<and> num_le v (Fin x)))"
    and f: "allCompliant out \<longleftrightarrow> (\<forall>i<length allParams. isCompliant (newResults out ! i))"
    using allCompliant_is_conjunction [of cadmiumForm] by blast
  have "\<not> isCompliant (newResults out ! 18)"
    using r [rule_format, of 18] cadmium_row(1,3) cadmiumForm_value cadmiumForm_limit
    by (auto simp: cadmium_row(2))
  moreover from this have "\<not> allCompliant out"
    using f cadmium_row(1) by blast
  moreover have "\<exists>out. checkCompliance initialForm = Inr out \<and> allCompliant out"
    using allCompliant_is_conjunction [of initialForm] initial_values by blast
  ultimately show ?thesis using out by blast
qed

section \<open>The chart data\<close>

lemma distinct_ids: "distinct (map p_id allParams)"
  by (simp add: param_defs)

lemma same_id:
  assumes "p \<in> set allParams" and "q \<in> set allParams" and "p_id q = p_id p"
  shows "q = p"
proof -
  have "inj_on p_id (set allParams)"
    using distinct_ids by (simp add: distinct_map)
  then show ?thesis using assms by (auto dest: inj_onD)
qed

lemma chartOf_point:
  assumes "pt \<in> set (chartOf c q)"
  shows "c_id pt = p_id q \<and>
         (if p_isRange q
          then c_limit pt = field (theLimit c q) ''max'' \<and>
               c_minLimit pt = Some (field (theLimit c q) ''min'')
          else c_limit pt = theLimit c q \<and> c_minLimit pt = None)"
  using assms by (auto simp: chartOf_def split: option.splits if_splits)

lemma chartOf_nonempty:
  "chartOf c p \<noteq> [] \<longleftrightarrow> getInputValue c (p_id p) \<noteq> None \<and> theLimit c p \<noteq> Null"
  by (auto simp: chartOf_def split: option.splits)

lemma charted_or_sludge:
  assumes "p \<in> set allParams"
  shows "p \<in> set (mrslParams @ heavyMetalParams @ conventionalParams) \<longleftrightarrow> p \<notin> set sludgeParams"
proof -
  define xs where "xs = mrslParams @ heavyMetalParams @ conventionalParams"
  have all: "allParams = xs @ sludgeParams"
    by (simp add: allParams_def xs_def)
  have "distinct (map p_id xs @ map p_id sludgeParams)"
    using distinct_ids unfolding all by simp
  then have "set (map p_id xs) \<inter> set (map p_id sludgeParams) = {}"
    by (simp only: distinct_append)
  then have "p_id ` set xs \<inter> p_id ` set sludgeParams = {}"
    by (simp only: set_map)
  then have "p \<in> set xs \<Longrightarrow> p \<notin> set sludgeParams"
    by blast
  moreover have "p \<in> set xs \<or> p \<in> set sludgeParams"
    using assms unfolding all by simp
  ultimately show ?thesis unfolding xs_def by blast
qed

lemma ph_charted: "allParams ! 26 \<in> set allParams" "allParams ! 26 \<notin> set sludgeParams"
proof -
  show m: "allParams ! 26 \<in> set allParams"
    using ph_row(1) by (rule nth_mem)
  have "allParams ! 26 \<in> set conventionalParams"
    unfolding ph_param by (simp add: conventionalParams_def)
  then show "allParams ! 26 \<notin> set sludgeParams"
    using charted_or_sludge [OF m] by simp
qed

lemma phForm_value: "getInputValue phForm ''ph'' = Some (Fin 5.5)"
  by (simp add: getInputValue_def phForm_def initialForm_def parse_defs)

lemma phForm_limit: "getLimit phForm (p_limits (allParams ! 26)) = Inr (minMax (num 6) (num 9))"
  by (simp add: ph_row getLimit_def andThen_def phForm_def initialForm_def lit_values)

text \<open>
  C7. The chart data of a check action holds a point for a parameter exactly when its
  parsed value and its resolved limit are both present and it is not a sludge parameter.
  The point of a range parameter plots the \<open>max\<close> bound as its limit and carries the
  \<open>min\<close> bound; the point of any other parameter plots the limit and carries no
  minimum.
\<close>

theorem chart_point_iff_measured_and_limited:
  "\<exists>out. checkCompliance c = Inr out \<and>
     (\<forall>p\<in>set allParams.
        ((\<exists>pt\<in>set (newChartData out). c_id pt = p_id p) \<longleftrightarrow>
           getInputValue c (p_id p) \<noteq> None \<and> getLimit c (p_limits p) \<noteq> Inr Null \<and>
           p \<notin> set sludgeParams) \<and>
        (\<forall>pt\<in>set (newChartData out). c_id pt = p_id p \<longrightarrow>
           (\<exists>l. getLimit c (p_limits p) = Inr l \<and>
              (if p_isRange p
               then c_limit pt = field l ''max'' \<and> c_minLimit pt = Some (field l ''min'')
               else c_limit pt = l \<and> c_minLimit pt = None))))"
proof -
  define charted where "charted = mrslParams @ heavyMetalParams @ conventionalParams"
  obtain out where out: "checkCompliance c = Inr out"
    by (simp add: checkCompliance_eq)
  have "newChartData out = concat (map (chartOf c) charted)"
    using out unfolding charted_def checkCompliance_eq by auto
  then have chart: "set (newChartData out) = (\<Union>q\<in>set charted. set (chartOf c q))"
    by simp
  have chartD: "\<exists>q\<in>set charted. pt \<in> set (chartOf c q)" if "pt \<in> set (newChartData out)" for pt
    using that unfolding chart by (rule UN_E) blast
  have chartI: "pt \<in> set (newChartData out)"
    if "q \<in> set charted" and "pt \<in> set (chartOf c q)" for pt q
    unfolding chart using that by (rule UN_I)
  have sub: "set charted \<subseteq> set allParams"
    by (auto simp: allParams_def charted_def)
  have cs: "p \<in> set charted \<longleftrightarrow> p \<notin> set sludgeParams" if "p \<in> set allParams" for p
    using charted_or_sludge [OF that] by (simp only: charted_def)
  have "((\<exists>pt\<in>set (newChartData out). c_id pt = p_id p) \<longleftrightarrow>
           getInputValue c (p_id p) \<noteq> None \<and> getLimit c (p_limits p) \<noteq> Inr Null \<and>
           p \<notin> set sludgeParams) \<and>
        (\<forall>pt\<in>set (newChartData out). c_id pt = p_id p \<longrightarrow>
           (\<exists>l. getLimit c (p_limits p) = Inr l \<and>
              (if p_isRange p
               then c_limit pt = field l ''max'' \<and> c_minLimit pt = Some (field l ''min'')
               else c_limit pt = l \<and> c_minLimit pt = None)))"
    if p: "p \<in> set allParams" for p
  proof -
    obtain l where l: "getLimit c (p_limits p) = Inr l"
      using allParams_shape [OF p] by blast
    have tl: "theLimit c p = l" using l by (rule theLimit_eq)
    have from_p: "p \<in> set charted \<and> pt \<in> set (chartOf c p)"
      if m: "pt \<in> set (newChartData out)" and e: "c_id pt = p_id p" for pt
    proof -
      obtain q where q: "q \<in> set charted" "pt \<in> set (chartOf c q)"
        using chartD [OF m] by blast
      have "c_id pt = p_id q" using chartOf_point [OF q(2)] by simp
      then have "p_id q = p_id p" using e by simp
      moreover have "q \<in> set allParams" using q(1) sub by blast
      ultimately have "q = p" using same_id [OF p] by blast
      then show ?thesis using q by simp
    qed
    have "(\<exists>pt\<in>set (newChartData out). c_id pt = p_id p) \<longleftrightarrow>
            p \<in> set charted \<and> chartOf c p \<noteq> []"
    proof
      assume "\<exists>pt\<in>set (newChartData out). c_id pt = p_id p"
      then obtain pt where pt: "pt \<in> set (newChartData out)" "c_id pt = p_id p" by blast
      show "p \<in> set charted \<and> chartOf c p \<noteq> []"
        using from_p [OF pt] by auto
    next
      assume a: "p \<in> set charted \<and> chartOf c p \<noteq> []"
      then obtain pt where pt: "pt \<in> set (chartOf c p)"
        by (cases "chartOf c p") auto
      have "pt \<in> set (newChartData out)" using a pt chartI by blast
      moreover have "c_id pt = p_id p" using chartOf_point [OF pt] by simp
      ultimately show "\<exists>pt\<in>set (newChartData out). c_id pt = p_id p" by blast
    qed
    then have one: "(\<exists>pt\<in>set (newChartData out). c_id pt = p_id p) \<longleftrightarrow>
           getInputValue c (p_id p) \<noteq> None \<and> getLimit c (p_limits p) \<noteq> Inr Null \<and>
           p \<notin> set sludgeParams"
      using cs [OF p] chartOf_nonempty [of c p] l tl by auto
    have two: "\<forall>pt\<in>set (newChartData out). c_id pt = p_id p \<longrightarrow>
           (\<exists>l. getLimit c (p_limits p) = Inr l \<and>
              (if p_isRange p
               then c_limit pt = field l ''max'' \<and> c_minLimit pt = Some (field l ''min'')
               else c_limit pt = l \<and> c_minLimit pt = None))"
    proof (intro ballI impI)
      fix pt assume m: "pt \<in> set (newChartData out)" and e: "c_id pt = p_id p"
      have "pt \<in> set (chartOf c p)" using from_p [OF m e] by simp
      then show "\<exists>l. getLimit c (p_limits p) = Inr l \<and>
              (if p_isRange p
               then c_limit pt = field l ''max'' \<and> c_minLimit pt = Some (field l ''min'')
               else c_limit pt = l \<and> c_minLimit pt = None)"
        using chartOf_point [of pt c p] l tl by simp
    qed
    show ?thesis using one two by blast
  qed
  then show ?thesis using out by blast
qed

theorem chart_point_iff_measured_and_limited_witness:
  "\<exists>out. checkCompliance phForm = Inr out \<and>
     (\<exists>pt\<in>set (newChartData out).
        c_id pt = ''ph'' \<and> c_limit pt = num 9 \<and> c_minLimit pt = Some (num 6))"
proof -
  let ?p = "allParams ! 26"
  obtain out where out: "checkCompliance phForm = Inr out"
    and h: "\<forall>p\<in>set allParams.
        ((\<exists>pt\<in>set (newChartData out). c_id pt = p_id p) \<longleftrightarrow>
           getInputValue phForm (p_id p) \<noteq> None \<and> getLimit phForm (p_limits p) \<noteq> Inr Null \<and>
           p \<notin> set sludgeParams) \<and>
        (\<forall>pt\<in>set (newChartData out). c_id pt = p_id p \<longrightarrow>
           (\<exists>l. getLimit phForm (p_limits p) = Inr l \<and>
              (if p_isRange p
               then c_limit pt = field l ''max'' \<and> c_minLimit pt = Some (field l ''min'')
               else c_limit pt = l \<and> c_minLimit pt = None)))"
    using chart_point_iff_measured_and_limited [of phForm] by blast
  have a: "(\<exists>pt\<in>set (newChartData out). c_id pt = p_id ?p) \<longleftrightarrow>
           getInputValue phForm (p_id ?p) \<noteq> None \<and> getLimit phForm (p_limits ?p) \<noteq> Inr Null \<and>
           ?p \<notin> set sludgeParams"
    and b: "\<forall>pt\<in>set (newChartData out). c_id pt = p_id ?p \<longrightarrow>
           (\<exists>l. getLimit phForm (p_limits ?p) = Inr l \<and>
              (if p_isRange ?p
               then c_limit pt = field l ''max'' \<and> c_minLimit pt = Some (field l ''min'')
               else c_limit pt = l \<and> c_minLimit pt = None))"
    using h ph_charted(1) by blast+
  obtain pt where pt: "pt \<in> set (newChartData out)" "c_id pt = ''ph''"
    using a ph_charted(2) phForm_value phForm_limit by (auto simp: ph_row(2))
  have "c_limit pt = num 9 \<and> c_minLimit pt = Some (num 6)"
    using b pt phForm_limit ph_row(3) by (auto simp: ph_row(2) field_def)
  then show ?thesis using out pt by blast
qed

section \<open>The discharge type\<close>

text \<open>
  C8. Two states of the form that agree on the inputs, the industry and the compliance
  level, and so differ at most in the discharge type, give the same outcome of the check
  action: the same rows, the same overall flag and the same chart data.
\<close>

theorem dischargeType_not_read:
  assumes "params c' = params c" and "industryType c' = industryType c"
    and "complianceLevel c' = complianceLevel c"
  shows "checkCompliance c' = checkCompliance c"
proof -
  have gi: "getInputValue c' = getInputValue c"
    by (simp add: fun_eq_iff getInputValue_def assms)
  have gl: "getLimit c' = getLimit c"
    by (simp add: fun_eq_iff getLimit_def assms)
  have "mrslBody c' = mrslBody c" "heavyMetalBody c' = heavyMetalBody c"
    "conventionalBody c' = conventionalBody c" "sludgeBody c' = sludgeBody c"
    by (simp_all add: fun_eq_iff mrslBody_def heavyMetalBody_def conventionalBody_def
        sludgeBody_def gi gl)
  then show ?thesis by (simp add: checkCompliance_def)
qed

theorem dischargeType_not_read_witness:
  "dischargeType (cadmiumForm\<lparr>dischargeType := ZLD\<rparr>) \<noteq> dischargeType cadmiumForm \<and>
   checkCompliance (cadmiumForm\<lparr>dischargeType := ZLD\<rparr>) = checkCompliance cadmiumForm"
  using dischargeType_not_read [of "cadmiumForm\<lparr>dischargeType := ZLD\<rparr>" cadmiumForm]
  by (simp add: cadmiumForm_def initialForm_def)

section \<open>Totality and order of the rows\<close>

text \<open>
  C9. For every state of the form the check action returns normally, with exactly one
  result row per defined parameter (45 rows), in the declaration order: the MRSL
  parameters, then the heavy metals, then the conventional parameters, then the sludge
  parameters, each array in its own order.
\<close>

theorem checkCompliance_returns_all_rows:
  "\<exists>out. checkCompliance c = Inr out \<and> length (newResults out) = 45 \<and>
     map paramName (newResults out) =
       map p_name (mrslParams @ heavyMetalParams @ conventionalParams @ sludgeParams)"
proof -
  have "map paramName (map (resultOf c) allParams) = map p_name allParams"
    by (simp add: resultOf_def)
  then show ?thesis
    using length_allParams by (simp add: checkCompliance_eq allParams_def)
qed

section \<open>Negative readings\<close>

lemma negative_le: "negative v \<Longrightarrow> 0 < x \<Longrightarrow> num_le v (Fin x)"
  by (cases v) simp_all

text \<open>
  C10. Every parameter that is not a range parameter resolves to a strictly positive
  limit, and its row is compliant for every strictly negative parsed value.
\<close>

theorem negative_value_is_compliant:
  "\<exists>out. checkCompliance c = Inr out \<and> length (newResults out) = length allParams \<and>
     (\<forall>i<length allParams. \<not> p_isRange (allParams ! i) \<longrightarrow>
        (\<exists>x. 0 < x \<and> getLimit c (p_limits (allParams ! i)) = Inr (num x)) \<and>
        (\<forall>v. getInputValue c (p_id (allParams ! i)) = Some v \<and> negative v \<longrightarrow>
             isCompliant (newResults out ! i)))"
proof -
  obtain out where out: "checkCompliance c = Inr out"
    by (simp add: checkCompliance_eq)
  have len: "length (newResults out) = length allParams"
    using out by (auto simp: checkCompliance_eq)
  have "(\<exists>x. 0 < x \<and> getLimit c (p_limits (allParams ! i)) = Inr (num x)) \<and>
        (\<forall>v. getInputValue c (p_id (allParams ! i)) = Some v \<and> negative v \<longrightarrow>
             isCompliant (newResults out ! i))"
    if i: "i < length allParams" and r: "\<not> p_isRange (allParams ! i)" for i
  proof -
    let ?p = "allParams ! i"
    obtain l where l: "getLimit c (p_limits ?p) = Inr l" and sh: "shaped ?p l"
      using allParams_shape [of ?p c] i by auto
    obtain x where x: "0 < x" "l = num x"
      using sh r positive_num unfolding shaped_def by fastforce
    have "isCompliant (newResults out ! i)"
      if v: "getInputValue c (p_id ?p) = Some v" and n: "negative v" for v
    proof -
      have "theCompliant c ?p = num_le v (ToNumber l)"
        using theCompliant_scalar [OF r l _ v] x by simp
      then have "theCompliant c ?p" using negative_le [OF n x(1)] x(2) by simp
      then show ?thesis using row_nth [OF i out] by (simp add: resultOf_def)
    qed
    then show ?thesis using l x by blast
  qed
  then show ?thesis using out len by blast
qed

lemma negativeForm_value: "getInputValue negativeForm ''cadmium'' = Some (Fin (- 1))"
  by (simp add: getInputValue_def negativeForm_def initialForm_def parse_defs)

theorem negative_value_is_compliant_witness:
  "\<exists>out. checkCompliance negativeForm = Inr out \<and> isCompliant (newResults out ! 18)"
proof -
  obtain out where out: "checkCompliance negativeForm = Inr out"
    and h: "\<forall>i<length allParams. \<not> p_isRange (allParams ! i) \<longrightarrow>
        (\<exists>x. 0 < x \<and> getLimit negativeForm (p_limits (allParams ! i)) = Inr (num x)) \<and>
        (\<forall>v. getInputValue negativeForm (p_id (allParams ! i)) = Some v \<and> negative v \<longrightarrow>
             isCompliant (newResults out ! i))"
    using negative_value_is_compliant [of negativeForm] by blast
  have "isCompliant (newResults out ! 18)"
    using h [rule_format, of 18] cadmium_row(1,3) negativeForm_value
    by (simp add: cadmium_row(2))
  then show ?thesis using out by blast
qed

end
